theory Spec2Isabelle
  imports Main
begin

section \<open>Values thrown by the TypeScript code\<close>

text \<open>
  A JavaScript \<^verbatim>\<open>throw\<close> carries any value. The sources distinguish
  \<^verbatim>\<open>error instanceof Error\<close> (whose \<^verbatim>\<open>message\<close> is read) from every other
  thrown value (rendered with \<^verbatim>\<open>String(error)\<close>), so a thrown value is one of the two.
\<close>

datatype thrown =
    ErrorObj string   \<comment> \<open>an instance of Error, with its message\<close>
  | NonError string   \<comment> \<open>any other value, with its String(...) rendering\<close>

text \<open>\<^verbatim>\<open>error instanceof Error ? error.message : String(error)\<close>\<close>

fun errorText :: "thrown \<Rightarrow> string" where
  "errorText (ErrorObj m) = m"
| "errorText (NonError v) = v"

section \<open>LLMAdapter: from a model tool call to a browser operation\<close>

text \<open>
  \<^verbatim>\<open>type ClaudeResponse = { action: string; coordinate?: [number, number];
  text?: string; url?: string; duration?: number }\<close>. Optional fields are options. The
  adapter never computes with a number: it hands numbers on to the browser and prints
  them, so the type of JavaScript numbers is left abstract here.
\<close>

typedecl number

record ClaudeResponse =
  action :: string
  coordinate :: "(number \<times> number) option"
  text' :: "string option"   \<comment> \<open>the field text\<close>
  url :: "string option"
  duration :: "number option"

text \<open>
  The \<^verbatim>\<open>Browser\<close> interface is imported from core/browser/browser, which is not among
  the sources. Each of its methods that the adapter calls is one constructor; the browser
  itself is a function from the call to what it returns or throws.
\<close>

text \<open>
  What \<^verbatim>\<open>pressKey\<close> receives in its array: a key name, or, when the look-up in the
  shortcut table found a value that is no string, that value (named by the key that
  found it).
\<close>

datatype PressedKey = Key string | NotAKeyName string

datatype BrowserCall =
    PressKey "PressedKey list"
  | TypeText string
  | MoveCursor number number
  | Click "number option" "number option"
  | Drag number number
  | Screenshot
  | GetState
  | Navigate string bool      \<comment> \<open>url, options.shoultInitialize\<close>
  | Sleep "number option"

record BrowserActionResult =
  message :: string
  payload :: "string option"
  cursorPosition :: "(number \<times> number) option"
    \<comment> \<open>metadata?.browserState?.cursor?.position\<close>

type_synonym Browser = "BrowserCall \<Rightarrow> thrown + BrowserActionResult"

text \<open>
  What the adapter takes from outside the sources. \<^verbatim>\<open>actions.keyboardShortcuts\<close>
  (browser/actions) is a plain object indexed with the lower-cased text, so the look-up
  also finds inherited properties such as \<^verbatim>\<open>constructor\<close>: its result is undefined or
  another falsy value (\<open>None\<close>), an array of key names, a string, or some other truthy
  value. \<^verbatim>\<open>String.prototype.toLowerCase\<close> and the conversion of a number to a string
  inside a template literal are the language's own.
\<close>

datatype TableValue = KeyCombo "string list" | OneKey string | OtherValue

record AdapterEnv =
  keyboardShortcuts :: "string \<Rightarrow> TableValue option"
  toLowerCase :: "string \<Rightarrow> string"
  numberToString :: "number \<Rightarrow> string"

text \<open>
  The outcome of one adapter call: what the returned promise settles to, and the browser
  methods that were invoked on the way, in order.
\<close>

type_synonym AdapterOutcome = "(thrown + BrowserActionResult) \<times> BrowserCall list"

definition handleKeyPress :: "AdapterEnv \<Rightarrow> Browser \<Rightarrow> ClaudeResponse \<Rightarrow> AdapterOutcome" where
  "handleKeyPress env browser response =
     (case text' response of
        None \<Rightarrow> (Inl (ErrorObj ''Text required for key press action.''), [])
      | Some t \<Rightarrow>
          if t = [] then (Inl (ErrorObj ''Text required for key press action.''), [])
          else
            let lowered = toLowerCase env t;
                toPress = (case keyboardShortcuts env lowered of
                             Some (KeyCombo ks) \<Rightarrow> map Key ks
                           | Some (OneKey k) \<Rightarrow> [Key (if k = [] then lowered else k)]
                           | Some OtherValue \<Rightarrow> [NotAKeyName lowered]
                           | None \<Rightarrow> [Key lowered])
            in (browser (PressKey toPress), [PressKey toPress]))"

definition handleTypeText :: "Browser \<Rightarrow> ClaudeResponse \<Rightarrow> AdapterOutcome" where
  "handleTypeText browser response =
     (case text' response of
        None \<Rightarrow> (Inl (ErrorObj ''Text required for type action.''), [])
      | Some t \<Rightarrow>
          if t = [] then (Inl (ErrorObj ''Text required for type action.''), [])
          else (browser (TypeText t), [TypeText t]))"

definition handleMouseMove :: "Browser \<Rightarrow> ClaudeResponse \<Rightarrow> AdapterOutcome" where
  "handleMouseMove browser response =
     (case coordinate response of
        None \<Rightarrow> (Inl (ErrorObj ''Coordinate required for mouse_move action.''), [])
      | Some (x, y) \<Rightarrow> (browser (MoveCursor x y), [MoveCursor x y]))"

definition handleLeftClick :: "Browser \<Rightarrow> ClaudeResponse \<Rightarrow> AdapterOutcome" where
  "handleLeftClick browser response =
     (case coordinate response of
        None \<Rightarrow> (browser (Click None None), [Click None None])
      | Some (x, y) \<Rightarrow> (browser (Click (Some x) (Some y)), [Click (Some x) (Some y)]))"

definition handleLeftClickDrag :: "Browser \<Rightarrow> ClaudeResponse \<Rightarrow> AdapterOutcome" where
  "handleLeftClickDrag browser response =
     (case coordinate response of
        None \<Rightarrow> (Inl (ErrorObj ''Coordinate required for left_click_drag action.''), [])
      | Some (x, y) \<Rightarrow> (browser (Drag x y), [Drag x y]))"

definition handleRightClick :: "Browser \<Rightarrow> ClaudeResponse \<Rightarrow> AdapterOutcome" where
  "handleRightClick browser response = (Inl (ErrorObj ''Right click not supported yet.''), [])"

text \<open>The source's message for a middle click says "Right click" too.\<close>

definition handleMiddleClick :: "Browser \<Rightarrow> ClaudeResponse \<Rightarrow> AdapterOutcome" where
  "handleMiddleClick browser response = (Inl (ErrorObj ''Right click not supported yet.''), [])"

definition handleDoubleClick :: "Browser \<Rightarrow> ClaudeResponse \<Rightarrow> AdapterOutcome" where
  "handleDoubleClick browser response = handleLeftClick browser response"

definition handleScreenshot :: "Browser \<Rightarrow> AdapterOutcome" where
  "handleScreenshot browser = (browser Screenshot, [Screenshot])"

text \<open>\<^verbatim>\<open>${cursorPosition?.x}\<close>: the number, or the text "undefined".\<close>

definition showCoordinate :: "AdapterEnv \<Rightarrow> number option \<Rightarrow> string" where
  "showCoordinate env c =
     (case c of None \<Rightarrow> ''undefined'' | Some n \<Rightarrow> numberToString env n)"

definition handleCursorPosition :: "AdapterEnv \<Rightarrow> Browser \<Rightarrow> AdapterOutcome" where
  "handleCursorPosition env browser =
     (case browser GetState of
        Inl e \<Rightarrow> (Inl e, [GetState])
      | Inr result \<Rightarrow>
          (Inr \<lparr> message = ''Cursor position is: ('' @
                     showCoordinate env (map_option fst (cursorPosition result)) @ '', '' @
                     showCoordinate env (map_option snd (cursorPosition result)) @ '')'',
                 payload = payload result,
                 cursorPosition = cursorPosition result \<rparr>,
           [GetState]))"

definition handleNavigate :: "Browser \<Rightarrow> ClaudeResponse \<Rightarrow> AdapterOutcome" where
  "handleNavigate browser response =
     (case url response of
        None \<Rightarrow> (Inl (ErrorObj ''URL required for navigate action.''), [])
      | Some u \<Rightarrow>
          if u = [] then (Inl (ErrorObj ''URL required for navigate action.''), [])
          else (browser (Navigate u True), [Navigate u True]))"

definition handleSleep :: "Browser \<Rightarrow> ClaudeResponse \<Rightarrow> AdapterOutcome" where
  "handleSleep browser response =
     (browser (Sleep (duration response)), [Sleep (duration response)])"

text \<open>
  \<^verbatim>\<open>transformAndExecute\<close> is a \<^verbatim>\<open>switch\<close> over the action tag. Every case returns
  its handler's promise, except \<^verbatim>\<open>case "sleep": this.handleSleep(response);\<close>, which has
  neither \<^verbatim>\<open>return\<close> nor \<^verbatim>\<open>break\<close>: the handler is started (the browser's sleep is
  invoked), its promise is dropped, and control falls through to \<^verbatim>\<open>default\<close>.
\<close>

definition transformAndExecute ::
    "AdapterEnv \<Rightarrow> Browser \<Rightarrow> ClaudeResponse \<Rightarrow> AdapterOutcome" where
  "transformAndExecute env browser response =
     (if action response = ''key'' then handleKeyPress env browser response
      else if action response = ''type'' then handleTypeText browser response
      else if action response = ''mouse_move'' then handleMouseMove browser response
      else if action response = ''left_click'' then handleLeftClick browser response
      else if action response = ''left_click_drag'' then handleLeftClickDrag browser response
      else if action response = ''right_click'' then handleRightClick browser response
      else if action response = ''middle_click'' then handleMiddleClick browser response
      else if action response = ''double_click'' then handleDoubleClick browser response
      else if action response = ''screenshot'' then handleScreenshot browser
      else if action response = ''cursor_position'' then handleCursorPosition env browser
      else if action response = ''navigate'' then handleNavigate browser response
      else if action response = ''sleep'' then
        (Inl (ErrorObj (''Unsupported action: '' @ action response)),
         snd (handleSleep browser response))
      else (Inl (ErrorObj (''Unsupported action: '' @ action response)), []))"

section \<open>The test runner: data\<close>

record TokenMetrics =
  input :: int
  output' :: int   \<comment> \<open>the field output\<close>

definition noTokens :: TokenMetrics where
  "noTokens = \<lparr> input = 0, output' = 0 \<rparr>"

text \<open>
  \<^verbatim>\<open>TestResult\<close>. The field \<^verbatim>\<open>test\<close> holds the TestFunction object; the model keeps the
  test's name in its place (absent in an object that came out of \<^verbatim>\<open>JSON.parse\<close>). The
  status is the string the code compares (\<^verbatim>\<open>"passed"\<close>, \<^verbatim>\<open>"failed"\<close>); the cast
  \<^verbatim>\<open>as TestResult\<close> of parsed JSON checks nothing, so any string can occur.
\<close>

record TestResult =
  test :: "string option"
  status :: string
  reason :: string
  tokenUsage :: TokenMetrics

text \<open>
  A user callback (\<^verbatim>\<open>fn\<close>, \<^verbatim>\<open>beforeFn\<close>, \<^verbatim>\<open>afterFn\<close>, a file hook) receives the test
  context (page, browser, playwright). \<open>'w\<close> is the state of that outside world; a
  callback changes it and either completes or throws.
\<close>

type_synonym 'w callback = "'w \<Rightarrow> thrown option \<times> 'w"

record 'w TestFunction =
  name :: string
  directExecution :: bool
  fn :: "'w callback option"
  beforeFn :: "'w callback option"
  afterFn :: "'w callback option"

text \<open>The input of \<^verbatim>\<open>BrowserTool.execute\<close>, as far as the runner reads it.\<close>

record ActionInput =
  input_action :: string                      \<comment> \<open>input.action\<close>
  input_coordinate :: "(int \<times> int) option"     \<comment> \<open>input.coordinate\<close>

text \<open>
  A cached step: \<^verbatim>\<open>step.action\<close> may be null (read with \<^verbatim>\<open>?.\<close>), \<^verbatim>\<open>step.extras\<close> is
  read without a guard. A cache entry: \<^verbatim>\<open>data.steps\<close> is optional.
\<close>

record CacheStep =
  step_input :: "ActionInput option"          \<comment> \<open>step.action?.input\<close>
  componentStr :: "string option"             \<comment> \<open>step.extras.componentStr\<close>

record CacheEntry =
  steps :: "CacheStep list option"            \<comment> \<open>data.steps\<close>

text \<open>What the runner reads of a \<^verbatim>\<open>BrowserTool.execute\<close> result.\<close>

record ToolResult =
  window_url :: "string option"               \<comment> \<open>metadata?.window_info?.url\<close>
  window_title :: "string option"             \<comment> \<open>metadata?.window_info?.title\<close>

datatype ContentBlock = TextBlock string | OtherBlock

text \<open>What \<^verbatim>\<open>AIClient.processAction\<close> resolves to.\<close>

record AIResult =
  finalResponse :: "ContentBlock list"        \<comment> \<open>finalResponse.content\<close>
  usage :: TokenMetrics                       \<comment> \<open>result.tokenUsage\<close>
  pendingCache :: CacheEntry

record FileResult =
  filePath :: string
  file_status :: string
  file_reason :: string

text \<open>
  Modelled from the spec: the declaration of \<^verbatim>\<open>BrowserActionEnum\<close> (types) is not among
  the sources. Its members are the action tags of the action vocabulary, as
  \<^verbatim>\<open>LLMAdapter.transformAndExecute\<close> spells them.
\<close>

definition BrowserActionEnum_Screenshot :: string where
  "BrowserActionEnum_Screenshot = ''screenshot''"

definition BrowserActionEnum_MouseMove :: string where
  "BrowserActionEnum_MouseMove = ''mouse_move''"

text \<open>
  Every call the runner makes on a collaborator is recorded, in order, so that a property
  can say which calls happened.
\<close>

datatype Event =
    CacheGetEv string
  | CacheSetEv string
  | CacheDeleteEv string
  | ExecuteEv ActionInput                     \<comment> \<open>browserTool.execute\<close>
  | ComponentStrEv int int                    \<comment> \<open>getNormalizedComponentStringByCoords\<close>
  | GotoEv "string option"                    \<comment> \<open>page.goto\<close>
  | ProcessActionEv string                    \<comment> \<open>aiClient.processAction, for the named test\<close>
  | FnEv string
  | BeforeFnEv string
  | AfterFnEv string
  | FileHookEv
  | ImportEv string
  | LaunchEv
  | CloseEv
  | OnFileStartEv string nat
  | OnTestStartEv string
  | OnTestEndEv TestResult
  | OnFileEndEv FileResult

text \<open>
  The registry \<^verbatim>\<open>global.__shortest__.registry\<close>, which importing a compiled test file
  fills.
\<close>

record 'w Registry =
  currentFileTests :: "'w TestFunction list"
  beforeAllFns :: "'w callback list"
  afterAllFns :: "'w callback list"
  beforeEachFns :: "'w callback list"
  afterEachFns :: "'w callback list"

text \<open>
  The runner's configuration and its collaborators, none of which is among the sources:
  the browser tool, the page, the AI client, the compiler and module loader, the browser
  manager, \<^verbatim>\<open>hashData\<close> and \<^verbatim>\<open>JSON.parse\<close>. Each is a parameter that may change the
  world and may throw.
\<close>

record 'w Runner =
  cwd :: string                               \<comment> \<open>this.cwd\<close>
  noCache :: bool                             \<comment> \<open>this.noCache\<close>
  anthropicKey :: "string option"             \<comment> \<open>this.config.anthropicKey\<close>
  hashData :: "'w TestFunction \<Rightarrow> string"
  execute :: "ActionInput \<Rightarrow> 'w \<Rightarrow> (thrown + ToolResult) \<times> 'w"
  getNormalizedComponentStringByCoords :: "int \<Rightarrow> int \<Rightarrow> 'w \<Rightarrow> (thrown + string) \<times> 'w"
  goto :: "string option \<Rightarrow> 'w \<Rightarrow> thrown option \<times> 'w"
  processAction :: "'w TestFunction \<Rightarrow> ToolResult \<Rightarrow> 'w \<Rightarrow> (thrown + AIResult option) \<times> 'w"
  JSON_parse :: "string \<Rightarrow> thrown + TestResult"
  importFile :: "string \<Rightarrow> 'w Registry \<Rightarrow> 'w \<Rightarrow> (thrown + 'w Registry) \<times> 'w"
  launch :: "'w \<Rightarrow> thrown option \<times> 'w"
  close :: "'w \<Rightarrow> thrown option \<times> 'w"

record 'w RunnerState =
  world :: 'w
  cache :: "string \<rightharpoonup> CacheEntry"
  registry :: "'w Registry"
  events :: "Event list"

definition emit :: "Event \<Rightarrow> 'w RunnerState \<Rightarrow> 'w RunnerState" where
  "emit ev s = s\<lparr> events := events s @ [ev] \<rparr>"

section \<open>The test runner: calls on collaborators\<close>

text \<open>
  Modelled from the spec: \<^verbatim>\<open>BaseCache\<close> (cache/cache) is not among the sources. Following
  the spec's ReplayCache, it is a store from the test's fingerprint to its entry with
  \<^verbatim>\<open>get\<close>, \<^verbatim>\<open>set\<close> (full replace) and \<^verbatim>\<open>delete\<close>.
\<close>

definition cache_get ::
    "'w Runner \<Rightarrow> 'w TestFunction \<Rightarrow> 'w RunnerState \<Rightarrow> CacheEntry option \<times> 'w RunnerState" where
  "cache_get R t s = (cache s (hashData R t), emit (CacheGetEv (hashData R t)) s)"

definition cache_set ::
    "'w Runner \<Rightarrow> 'w TestFunction \<Rightarrow> CacheEntry \<Rightarrow> 'w RunnerState \<Rightarrow> 'w RunnerState" where
  "cache_set R t e s =
     emit (CacheSetEv (hashData R t)) (s\<lparr> cache := (cache s)(hashData R t \<mapsto> e) \<rparr>)"

definition cache_delete :: "'w Runner \<Rightarrow> 'w TestFunction \<Rightarrow> 'w RunnerState \<Rightarrow> 'w RunnerState" where
  "cache_delete R t s =
     emit (CacheDeleteEv (hashData R t)) (s\<lparr> cache := (cache s)(hashData R t := None) \<rparr>)"

text \<open>A call on the outside world: run it on the world, record the event.\<close>

definition call :: "Event \<Rightarrow> ('w \<Rightarrow> 'a \<times> 'w) \<Rightarrow> 'w RunnerState \<Rightarrow> 'a \<times> 'w RunnerState" where
  "call ev f s = (case f (world s) of (r, w) \<Rightarrow> (r, emit ev (s\<lparr> world := w \<rparr>)))"

text \<open>\<^verbatim>\<open>if (hook) { try { await hook(testContext) } catch (error) ... }\<close>: an absent hook does nothing.\<close>

definition callOptional ::
    "Event \<Rightarrow> 'w callback option \<Rightarrow> 'w RunnerState \<Rightarrow> thrown option \<times> 'w RunnerState" where
  "callOptional ev hook s = (case hook of None \<Rightarrow> (None, s) | Some f \<Rightarrow> call ev f s)"

section \<open>The test runner: replay of a cached test\<close>

definition failedResult :: "'w TestFunction \<Rightarrow> string \<Rightarrow> TokenMetrics \<Rightarrow> TestResult" where
  "failedResult t why tokens =
     \<lparr> test = Some (name t), status = ''failed'', reason = why, tokenUsage = tokens \<rparr>"

definition passedResult :: "'w TestFunction \<Rightarrow> string \<Rightarrow> TokenMetrics \<Rightarrow> TestResult" where
  "passedResult t why tokens =
     \<lparr> test = Some (name t), status = ''passed'', reason = why, tokenUsage = tokens \<rparr>"

text \<open>
  The filter of \<^verbatim>\<open>runCachedTest\<close>:
  \<^verbatim>\<open>step.action?.input.action !== BrowserActionEnum.Screenshot.toString()\<close>.
  A step without an action is kept.
\<close>

definition notScreenshot :: "CacheStep \<Rightarrow> bool" where
  "notScreenshot step =
     (case step_input step of
        None \<Rightarrow> True
      | Some inp \<Rightarrow> input_action inp \<noteq> BrowserActionEnum_Screenshot)"

text \<open>
  The first half of the loop body of \<^verbatim>\<open>runCachedTest\<close>: only for a step whose action is
  \<^verbatim>\<open>BrowserActionEnum.MouseMove\<close> and that has a coordinate, the component string at the
  coordinate is read from the live page and compared with the recorded one. The result
  is whether replay may go on; the query itself may throw.
\<close>

definition verifyStep ::
    "'w Runner \<Rightarrow> CacheStep \<Rightarrow> 'w RunnerState \<Rightarrow> (thrown + bool) \<times> 'w RunnerState" where
  "verifyStep R step s =
     (case step_input step of
        None \<Rightarrow> (Inr True, s)
      | Some inp \<Rightarrow>
          if input_action inp = BrowserActionEnum_MouseMove then
            (case input_coordinate inp of
               None \<Rightarrow> (Inr True, s)
             | Some (x, y) \<Rightarrow>
                 (case call (ComponentStrEv x y) (getNormalizedComponentStringByCoords R x y) s of
                    (Inl e, s1) \<Rightarrow> (Inl e, s1)
                  | (Inr live, s1) \<Rightarrow> (Inr (Some live = componentStr step), s1)))
          else (Inr True, s))"

text \<open>
  The second half: \<^verbatim>\<open>if (step.action?.input) { try { await browserTool.execute(...) }
  catch (error) { ... } }\<close>. What the execution throws is logged at most and dropped.
\<close>

definition replayAction :: "'w Runner \<Rightarrow> CacheStep \<Rightarrow> 'w RunnerState \<Rightarrow> 'w RunnerState" where
  "replayAction R step s =
     (case step_input step of
        None \<Rightarrow> s
      | Some inp \<Rightarrow> snd (call (ExecuteEv inp) (execute R inp) s))"

text \<open>
  The loop \<^verbatim>\<open>for (const step of steps)\<close> with the \<^verbatim>\<open>return\<close> that follows it. The
  one-second delay before each step has no effect on the state.
\<close>

fun replaySteps ::
    "'w Runner \<Rightarrow> 'w TestFunction \<Rightarrow> CacheStep list \<Rightarrow> 'w RunnerState
       \<Rightarrow> (thrown + TestResult) \<times> 'w RunnerState" where
  "replaySteps R t [] s =
     (Inr (passedResult t ''All actions successfully replayed from cache'' noTokens), s)"
| "replaySteps R t (step # rest) s =
     (case verifyStep R step s of
        (Inl e, s1) \<Rightarrow> (Inl e, s1)
      | (Inr False, s1) \<Rightarrow>
          (Inr (failedResult t
                  ''Component UI elements are different, running test in normal mode''
                  noTokens), s1)
      | (Inr True, s1) \<Rightarrow> replaySteps R t rest (replayAction R step s1))"

definition runCachedTest ::
    "'w Runner \<Rightarrow> 'w TestFunction \<Rightarrow> 'w RunnerState \<Rightarrow> (thrown + TestResult) \<times> 'w RunnerState" where
  "runCachedTest R t s =
     (case cache_get R t s of
        (cachedTest, s1) \<Rightarrow>
          (case (case cachedTest of
                   None \<Rightarrow> None
                 | Some entry \<Rightarrow> map_option (filter notScreenshot) (steps entry)) of
             None \<Rightarrow>
               (Inr (failedResult t ''No steps to execute, running test in normal mode''
                       noTokens), s1)
           | Some steps' \<Rightarrow> replaySteps R t steps' s1))"

section \<open>The test runner: one test\<close>

text \<open>\<^verbatim>\<open>String.prototype.includes\<close>\<close>

fun startsWith :: "string \<Rightarrow> string \<Rightarrow> bool" where
  "startsWith s [] = True"
| "startsWith [] (p # ps) = False"
| "startsWith (c # cs) (p # ps) = (c = p \<and> startsWith cs ps)"

fun includes' :: "string \<Rightarrow> string \<Rightarrow> bool" where
  "includes' [] sub = (sub = [])"
| "includes' (c # cs) sub = (startsWith (c # cs) sub \<or> includes' cs sub)"

text \<open>
  \<^verbatim>\<open>text.match(/{[\s\S]*}/)\<close>: the match starts at the first opening brace and, the star
  being greedy, ends at the last closing brace after it; there is none when either is
  missing.
\<close>

definition matchBraces :: "string \<Rightarrow> string option" where
  "matchBraces t =
     (case dropWhile (\<lambda>c. c \<noteq> CHR ''{'') t of
        [] \<Rightarrow> None
      | b # after \<Rightarrow>
          (case rev (dropWhile (\<lambda>c. c \<noteq> CHR ''}'') (rev after)) of
             [] \<Rightarrow> None
           | body \<Rightarrow> Some (b # body)))"

text \<open>The needle \<^verbatim>\<open>'"status":'\<close>; the double quote is character 0x22.\<close>

definition statusKey :: string where
  "statusKey = CHR 0x22 # ''status'' @ [CHR 0x22, CHR '':'']"

definition mentionsStatus :: "ContentBlock \<Rightarrow> bool" where
  "mentionsStatus block =
     (case block of TextBlock t \<Rightarrow> includes' t statusKey | OtherBlock \<Rightarrow> False)"

text \<open>
  "Parse AI result first" (lines 319 to 339 of \<^verbatim>\<open>executeTest\<close>): find the text block
  that mentions the status key, match the braces in it, parse the match.
\<close>

definition parseAIResult :: "'w Runner \<Rightarrow> ContentBlock list \<Rightarrow> thrown + TestResult" where
  "parseAIResult R content =
     (case find mentionsStatus content of
        None \<Rightarrow> Inl (ErrorObj ''No test result found in AI response'')
      | Some OtherBlock \<Rightarrow> Inl (ErrorObj ''No test result found in AI response'')
      | Some (TextBlock t) \<Rightarrow>
          (case matchBraces t of
             None \<Rightarrow> Inl (ErrorObj ''Invalid test result format'')
           | Some json \<Rightarrow> JSON_parse R json))"

text \<open>
  The reason composed when an after-hook throws:
  \<^verbatim>\<open>status === "failed" ? `AI: ${reason}, After: ${msg}` : msg\<close>.
\<close>

definition afterFailureReason :: "TestResult \<Rightarrow> thrown \<Rightarrow> string" where
  "afterFailureReason result error =
     (if status result = ''failed''
      then ''AI: '' @ reason result @ '', After: '' @ errorText error
      else errorText error)"

text \<open>
  The rest of \<^verbatim>\<open>executeTest\<close> from "Execute before function if present" (line 298) to
  its end: before-hook, the AI run, parsing, after-hook, storing the trace. The prompt is
  built from the test and the initial page state, which the AI client receives here in
  its place.
\<close>

definition executeTest_fresh ::
    "'w Runner \<Rightarrow> 'w TestFunction \<Rightarrow> ToolResult \<Rightarrow> 'w RunnerState
       \<Rightarrow> (thrown + TestResult) \<times> 'w RunnerState" where
  "executeTest_fresh R t initialState s =
     (case callOptional (BeforeFnEv (name t)) (beforeFn t) s of
        (Some error, s1) \<Rightarrow> (Inr (failedResult t (errorText error) noTokens), s1)
      | (None, s1) \<Rightarrow>
          (case call (ProcessActionEv (name t)) (processAction R t initialState) s1 of
             (Inl error, s2) \<Rightarrow> (Inl error, s2)
           | (Inr None, s2) \<Rightarrow>
               (Inl (ErrorObj ''AI processing failed: no result returned''), s2)
           | (Inr (Some result), s2) \<Rightarrow>
               (case parseAIResult R (finalResponse result) of
                  Inl error \<Rightarrow> (Inl error, s2)
                | Inr aiResult \<Rightarrow>
                    (case callOptional (AfterFnEv (name t)) (afterFn t) s2 of
                       (Some error, s3) \<Rightarrow>
                         (Inr (failedResult t (afterFailureReason aiResult error)
                                 (usage result)), s3)
                     | (None, s3) \<Rightarrow>
                         (Inr (aiResult\<lparr> tokenUsage := usage result \<rparr>),
                          if status aiResult = ''passed''
                          then cache_set R t (pendingCache result) s3
                          else s3)))))"

text \<open>
  The cache-hit branch of \<^verbatim>\<open>executeTest\<close> up to its \<^verbatim>\<open>catch\<close> (lines 262 to 284):
  replay, then the after-hook. \<open>Inl\<close> is what \<^verbatim>\<open>runCachedTest\<close> threw, which the
  \<^verbatim>\<open>catch\<close> of \<^verbatim>\<open>executeTest\<close> receives; \<open>Inr\<close> is the result this branch returns.
\<close>

definition executeTest_cached ::
    "'w Runner \<Rightarrow> 'w TestFunction \<Rightarrow> 'w RunnerState \<Rightarrow> (thrown + TestResult) \<times> 'w RunnerState" where
  "executeTest_cached R t s =
     (case runCachedTest R t s of
        (Inl error, s1) \<Rightarrow> (Inl error, s1)
      | (Inr result, s1) \<Rightarrow>
          (case callOptional (AfterFnEv (name t)) (afterFn t) s1 of
             (Some error, s2) \<Rightarrow>
               (Inr (failedResult t (afterFailureReason result error) noTokens), s2)
           | (None, s2) \<Rightarrow> (Inr (result\<lparr> tokenUsage := noTokens \<rparr>), s2)))"

definition screenshotInput :: ActionInput where
  "screenshotInput = \<lparr> input_action = ''screenshot'', input_coordinate = None \<rparr>"

text \<open>
  \<^verbatim>\<open>executeTest(test, context, config = { noCache: false })\<close>. The third argument is
  \<^verbatim>\<open>config.noCache\<close>. In the \<^verbatim>\<open>catch\<close> of the cache-hit branch the function calls
  itself with \<^verbatim>\<open>noCache: true\<close>, awaits the call, does nothing with its result, and goes
  on below the cache block.
\<close>

function executeTest ::
    "'w Runner \<Rightarrow> 'w TestFunction \<Rightarrow> bool \<Rightarrow> 'w RunnerState
       \<Rightarrow> (thrown + TestResult) \<times> 'w RunnerState" where
  "executeTest R t config_noCache s =
     (if directExecution t then
        (case callOptional (FnEv (name t)) (fn t) s of
           (None, s1) \<Rightarrow> (Inr (passedResult t ''Direct execution successful'' noTokens), s1)
         | (Some (ErrorObj m), s1) \<Rightarrow> (Inr (failedResult t m noTokens), s1)
         | (Some (NonError v), s1) \<Rightarrow>
             (Inr (failedResult t ''Direct execution failed'' noTokens), s1))
      else if anthropicKey R = None \<or> anthropicKey R = Some [] then
        (Inr (failedResult t ''ANTHROPIC_KEY is not set'' noTokens), s)
      else
        (case call (ExecuteEv screenshotInput) (execute R screenshotInput) s of
           (Inl error, s1) \<Rightarrow> (Inl error, s1)
         | (Inr initialState, s1) \<Rightarrow>
             if \<not> noCache R \<and> \<not> config_noCache then
               (case cache_get R t s1 of
                  (None, s2) \<Rightarrow> executeTest_fresh R t initialState s2
                | (Some entry, s2) \<Rightarrow>
                    (case executeTest_cached R t s2 of
                       (Inr result, s3) \<Rightarrow> (Inr result, s3)
                     | (Inl caught, s3) \<Rightarrow>
                         (case call (GotoEv (window_url initialState))
                                 (goto R (window_url initialState)) (cache_delete R t s3) of
                            (Some error, s4) \<Rightarrow> (Inl error, s4)
                          | (None, s4) \<Rightarrow>
                              (case executeTest R t True s4 of
                                 (Inl error, s5) \<Rightarrow> (Inl error, s5)
                               | (Inr ignored, s5) \<Rightarrow>
                                   executeTest_fresh R t initialState s5))))
             else executeTest_fresh R t initialState s1))"
  by pat_completeness auto
termination
  by (relation "measure (\<lambda>(R, t, config_noCache, s). if config_noCache then 0 else 1)") auto

declare executeTest.simps [simp del]

section \<open>The test runner: one file, all files\<close>

text \<open>\<^verbatim>\<open>for (const hook of hooks) { await hook(testContext) }\<close>: the first throw ends it.\<close>

fun runHooks :: "'w callback list \<Rightarrow> 'w RunnerState \<Rightarrow> thrown option \<times> 'w RunnerState" where
  "runHooks [] s = (None, s)"
| "runHooks (hook # hooks) s =
     (case call FileHookEv hook s of
        (Some error, s1) \<Rightarrow> (Some error, s1)
      | (None, s1) \<Rightarrow> runHooks hooks s1)"

text \<open>
  The loop over \<^verbatim>\<open>registry.currentFileTests\<close> in \<^verbatim>\<open>executeTestFile\<close>. Nothing in the
  loop catches: what a hook or \<^verbatim>\<open>executeTest\<close> throws leaves the loop.
\<close>

fun runFileTests ::
    "'w Runner \<Rightarrow> 'w TestFunction list \<Rightarrow> 'w RunnerState \<Rightarrow> thrown option \<times> 'w RunnerState" where
  "runFileTests R [] s = (None, s)"
| "runFileTests R (t # ts) s =
     (case runHooks (beforeEachFns (registry s)) s of
        (Some error, s1) \<Rightarrow> (Some error, s1)
      | (None, s1) \<Rightarrow>
          (case executeTest R t False (emit (OnTestStartEv (name t)) s1) of
             (Inl error, s2) \<Rightarrow> (Some error, s2)
           | (Inr testResult, s2) \<Rightarrow>
               (case runHooks (afterEachFns (registry s2)) (emit (OnTestEndEv testResult) s2) of
                  (Some error, s3) \<Rightarrow> (Some error, s3)
                | (None, s3) \<Rightarrow> runFileTests R ts s3)))"

text \<open>
  \<^verbatim>\<open>String.prototype.replace\<close> with a string pattern: the first occurrence is replaced.
  The replacement used below is the empty string.
\<close>

fun replaceFirst :: "string \<Rightarrow> string \<Rightarrow> string \<Rightarrow> string" where
  "replaceFirst [] pat new = (if pat = [] then new else [])"
| "replaceFirst (c # cs) pat new =
     (if startsWith (c # cs) pat then new @ drop (length pat) (c # cs)
      else c # replaceFirst cs pat new)"

text \<open>\<^verbatim>\<open>const filePathWithoutCwd = file.replace(this.cwd + "/", "")\<close>\<close>

definition filePathWithoutCwd :: "'w Runner \<Rightarrow> string \<Rightarrow> string" where
  "filePathWithoutCwd R file = replaceFirst file (cwd R @ ''/'') []"

text \<open>The inner \<^verbatim>\<open>try\<close> block of \<^verbatim>\<open>executeTestFile\<close>.\<close>

definition fileBody ::
    "'w Runner \<Rightarrow> string \<Rightarrow> 'w RunnerState \<Rightarrow> thrown option \<times> 'w RunnerState" where
  "fileBody R file s =
     (case runHooks (beforeAllFns (registry s)) s of
        (Some error, s1) \<Rightarrow> (Some error, s1)
      | (None, s1) \<Rightarrow>
          (case runFileTests R (currentFileTests (registry s1))
                  (emit (OnFileStartEv (filePathWithoutCwd R file)
                           (length (currentFileTests (registry s1)))) s1) of
             (Some error, s2) \<Rightarrow> (Some error, s2)
           | (None, s2) \<Rightarrow> runHooks (afterAllFns (registry s2)) s2))"

text \<open>
  The \<^verbatim>\<open>finally\<close> block: close the browser, empty the four hook lists, report the file
  as passed. If closing throws, that error replaces the one in flight.
\<close>

definition fileFinally ::
    "'w Runner \<Rightarrow> string \<Rightarrow> thrown option \<Rightarrow> 'w RunnerState \<Rightarrow> thrown option \<times> 'w RunnerState" where
  "fileFinally R file inFlight s =
     (case call CloseEv (close R) s of
        (Some error, s1) \<Rightarrow> (Some error, s1)
      | (None, s1) \<Rightarrow>
          (inFlight,
           emit (OnFileEndEv \<lparr> filePath = file, file_status = ''passed'', file_reason = [] \<rparr>)
             (s1\<lparr> registry := (registry s1)\<lparr> beforeAllFns := [], afterAllFns := [],
                                                beforeEachFns := [], afterEachFns := [] \<rparr> \<rparr>)))"

text \<open>
  The outer \<^verbatim>\<open>try\<close> block. Compiling and importing the file is one call that fills the
  registry; a browser that does not launch ends the function with a plain \<^verbatim>\<open>return\<close>.
\<close>

definition fileTry ::
    "'w Runner \<Rightarrow> string \<Rightarrow> 'w RunnerState \<Rightarrow> thrown option \<times> 'w RunnerState" where
  "fileTry R file s =
     (let s0 = s\<lparr> registry := (registry s)\<lparr> currentFileTests := [] \<rparr> \<rparr> in
      case call (ImportEv file) (importFile R file (registry s0)) s0 of
        (Inl error, s1) \<Rightarrow> (Some error, s1)
      | (Inr loaded, s1) \<Rightarrow>
          (case call LaunchEv (launch R) (s1\<lparr> registry := loaded \<rparr>) of
             (Some error, s2) \<Rightarrow> (None, s2)
           | (None, s2) \<Rightarrow>
               (case fileBody R file s2 of
                  (inFlight, s3) \<Rightarrow> fileFinally R file inFlight s3)))"

text \<open>
  \<^verbatim>\<open>executeTestFile\<close>: the \<^verbatim>\<open>catch\<close> reports the file as failed when the caught value
  is an Error, and never rethrows.
\<close>

definition executeTestFile :: "'w Runner \<Rightarrow> string \<Rightarrow> 'w RunnerState \<Rightarrow> 'w RunnerState" where
  "executeTestFile R file s =
     (case fileTry R file s of
        (None, s1) \<Rightarrow> s1
      | (Some (ErrorObj m), s1) \<Rightarrow>
          emit (OnFileEndEv \<lparr> filePath = file, file_status = ''failed'', file_reason = m \<rparr>) s1
      | (Some (NonError v), s1) \<Rightarrow> s1)"

text \<open>The loop of \<^verbatim>\<open>runTests\<close>: \<^verbatim>\<open>for (const file of files) await this.executeTestFile(file)\<close>.\<close>

fun runFiles :: "'w Runner \<Rightarrow> string list \<Rightarrow> 'w RunnerState \<Rightarrow> 'w RunnerState" where
  "runFiles R [] s = s"
| "runFiles R (file # files) s = runFiles R files (executeTestFile R file s)"

section \<open>Notions used to state the properties\<close>

text \<open>
  \<open>entersFresh R t c s initialState s1\<close>: the call \<^verbatim>\<open>executeTest(t, context, {noCache: c})\<close>
  in state \<open>s\<close> reaches "Execute before function if present" directly, with the initial
  page state \<open>initialState\<close> and in state \<open>s1\<close>. That is: the test is not a direct
  execution, the API key is set, the initial screenshot succeeds, and either caching is
  off or the cache has no entry for the test.
\<close>

definition entersFresh ::
    "'w Runner \<Rightarrow> 'w TestFunction \<Rightarrow> bool \<Rightarrow> 'w RunnerState \<Rightarrow> ToolResult \<Rightarrow> 'w RunnerState \<Rightarrow> bool" where
  "entersFresh R t config_noCache s initialState s1 =
     (\<not> directExecution t \<and> anthropicKey R \<noteq> None \<and> anthropicKey R \<noteq> Some [] \<and>
      (case call (ExecuteEv screenshotInput) (execute R screenshotInput) s of
         (Inl error, s0) \<Rightarrow> False
       | (Inr shot, s0) \<Rightarrow>
           shot = initialState \<and>
           (if noCache R \<or> config_noCache then s1 = s0
            else cache s0 (hashData R t) = None \<and> s1 = snd (cache_get R t s0))))"

text \<open>
  \<open>entersReplay R t c s initialState entry s1\<close>: the call reaches \<^verbatim>\<open>runCachedTest\<close> in
  state \<open>s1\<close>: not a direct execution, key set, screenshot taken, caching on, and the cache
  holds \<open>entry\<close> for the test.
\<close>

definition entersReplay ::
    "'w Runner \<Rightarrow> 'w TestFunction \<Rightarrow> bool \<Rightarrow> 'w RunnerState \<Rightarrow> ToolResult \<Rightarrow> CacheEntry
       \<Rightarrow> 'w RunnerState \<Rightarrow> bool" where
  "entersReplay R t config_noCache s initialState entry s1 =
     (\<not> directExecution t \<and> anthropicKey R \<noteq> None \<and> anthropicKey R \<noteq> Some [] \<and>
      \<not> noCache R \<and> \<not> config_noCache \<and>
      (case call (ExecuteEv screenshotInput) (execute R screenshotInput) s of
         (Inl error, s0) \<Rightarrow> False
       | (Inr shot, s0) \<Rightarrow>
           shot = initialState \<and> cache s0 (hashData R t) = Some entry \<and>
           s1 = snd (cache_get R t s0)))"

text \<open>Counting calls in the record of events.\<close>

definition isProcessAction :: "Event \<Rightarrow> bool" where
  "isProcessAction ev = (case ev of ProcessActionEv n \<Rightarrow> True | _ \<Rightarrow> False)"

definition isCacheSet :: "Event \<Rightarrow> bool" where
  "isCacheSet ev = (case ev of CacheSetEv k \<Rightarrow> True | _ \<Rightarrow> False)"

definition isCacheDelete :: "Event \<Rightarrow> bool" where
  "isCacheDelete ev = (case ev of CacheDeleteEv k \<Rightarrow> True | _ \<Rightarrow> False)"

definition isAfterFn :: "Event \<Rightarrow> bool" where
  "isAfterFn ev = (case ev of AfterFnEv n \<Rightarrow> True | _ \<Rightarrow> False)"

definition calls :: "(Event \<Rightarrow> bool) \<Rightarrow> 'w RunnerState \<Rightarrow> nat" where
  "calls which s = length (filter which (events s))"


text \<open>
  What "all steps replay without a mismatch" means, said of the outside world alone and
  without the runner's code: \<open>replayedWorld R sts w\<close> follows the trace \<open>sts\<close> from the
  world \<open>w\<close>. A screenshot step is skipped. At a mouse move with a coordinate the live
  page, as it is at that moment, is asked for the component string at the coordinate: if
  the query throws or the answer differs from the recorded string, there is no result.
  Otherwise the step's action is executed, whether it succeeds or throws, and the replay
  goes on from the world the execution left. The result is the world after the last step.
\<close>

fun replayedWorld :: "'w Runner \<Rightarrow> CacheStep list \<Rightarrow> 'w \<Rightarrow> 'w option" where
  "replayedWorld R [] w = Some w"
| "replayedWorld R (step # rest) w =
     (case step_input step of
        None \<Rightarrow> replayedWorld R rest w
      | Some inp \<Rightarrow>
          if input_action inp = ''screenshot'' then replayedWorld R rest w
          else
            (case (if input_action inp = ''mouse_move'' then input_coordinate inp else None) of
               None \<Rightarrow> replayedWorld R rest (snd (execute R inp w))
             | Some (x, y) \<Rightarrow>
                 (case getNormalizedComponentStringByCoords R x y w of
                    (Inl e, w1) \<Rightarrow> None
                  | (Inr live, w1) \<Rightarrow>
                      if Some live = componentStr step
                      then replayedWorld R rest (snd (execute R inp w1))
                      else None)))"

section \<open>Concrete collaborators for checking the properties on inputs\<close>

definition quoted :: "string \<Rightarrow> string" where
  "quoted s = CHR 0x22 # s @ [CHR 0x22]"

text \<open>The verdict text \<^verbatim>\<open>{"status": "...", "reason": "..."}\<close>.\<close>

definition verdictText :: "string \<Rightarrow> string \<Rightarrow> string" where
  "verdictText st why =
     ''{'' @ quoted ''status'' @ '': '' @ quoted st @ '', '' @ quoted ''reason'' @ '': '' @
     quoted why @ ''}''"

definition stubParse :: "string \<Rightarrow> thrown + TestResult" where
  "stubParse json =
     (if json = verdictText ''passed'' ''login succeeded'' then
        Inr \<lparr> test = None, status = ''passed'', reason = ''login succeeded'',
              tokenUsage = noTokens \<rparr>
      else if json = verdictText ''failed'' ''no login form'' then
        Inr \<lparr> test = None, status = ''failed'', reason = ''no login form'',
              tokenUsage = noTokens \<rparr>
      else Inl (ErrorObj ''Unexpected token in JSON''))"

definition stubPage :: ToolResult where
  "stubPage = \<lparr> window_url = Some ''http://localhost:3000/login'', window_title = Some ''Login'' \<rparr>"

definition moveStep :: "string \<Rightarrow> CacheStep" where
  "moveStep recorded =
     \<lparr> step_input = Some \<lparr> input_action = ''mouse_move'', input_coordinate = Some (10, 20) \<rparr>,
       componentStr = Some recorded \<rparr>"

definition clickStep :: "string \<Rightarrow> CacheStep" where
  "clickStep recorded =
     \<lparr> step_input = Some \<lparr> input_action = ''left_click'', input_coordinate = Some (10, 20) \<rparr>,
       componentStr = Some recorded \<rparr>"

definition stubTrace :: CacheEntry where
  "stubTrace = \<lparr> steps = Some [moveStep ''A'', clickStep ''A''] \<rparr>"

definition emptyRegistry :: "'w Registry" where
  "emptyRegistry = \<lparr> currentFileTests = [], beforeAllFns = [], afterAllFns = [],
                      beforeEachFns = [], afterEachFns = [] \<rparr>"

text \<open>
  A runner over a world without state: the live component string at any point is
  \<open>live\<close> (or the query throws), the model's final reply is the text \<open>reply\<close>, it used
  (120, 30) tokens, and importing any file registers the tests \<open>ts\<close>.
\<close>

definition stubRunner :: "bool \<Rightarrow> thrown + string \<Rightarrow> string \<Rightarrow> unit TestFunction list \<Rightarrow> unit Runner" where
  "stubRunner off live reply ts =
     \<lparr> cwd = ''/repo'',
       noCache = off,
       anthropicKey = Some ''sk-test'',
       hashData = name,
       execute = (\<lambda>inp w. (Inr stubPage, w)),
       getNormalizedComponentStringByCoords = (\<lambda>x y w. (live, w)),
       goto = (\<lambda>u w. (None, w)),
       processAction = (\<lambda>t page w.
          (Inr (Some \<lparr> finalResponse = [OtherBlock, TextBlock reply],
                       usage = \<lparr> input = 120, output' = 30 \<rparr>,
                       pendingCache = stubTrace \<rparr>), w)),
       JSON_parse = stubParse,
       importFile = (\<lambda>file reg w. (Inr (reg\<lparr> currentFileTests := ts \<rparr>), w)),
       launch = (\<lambda>w. (None, w)),
       close = (\<lambda>w. (None, w)) \<rparr>"

definition throwing :: "string \<Rightarrow> 'w callback" where
  "throwing m = (\<lambda>w. (Some (ErrorObj m), w))"

definition stubTest :: "string \<Rightarrow> 'w callback option \<Rightarrow> 'w callback option \<Rightarrow> 'w TestFunction" where
  "stubTest n hookBefore hookAfter =
     \<lparr> name = n, directExecution = False, fn = None, beforeFn = hookBefore,
       afterFn = hookAfter \<rparr>"

definition stubState :: "(string \<rightharpoonup> CacheEntry) \<Rightarrow> unit RunnerState" where
  "stubState stored = \<lparr> world = (), cache = stored, registry = emptyRegistry, events = [] \<rparr>"

definition passReply :: string where
  "passReply = ''The login works. '' @ verdictText ''passed'' ''login succeeded''"

definition failReply :: string where
  "failReply = verdictText ''failed'' ''no login form''"

definition loginTest :: "unit TestFunction" where
  "loginTest = stubTest ''login'' None None"

text \<open>A test that is executed directly and has no callback: it passes at once.\<close>

definition smokeTest :: "unit TestFunction" where
  "smokeTest =
     \<lparr> name = ''smoke'', directExecution = True, fn = None, beforeFn = None, afterFn = None \<rparr>"

text \<open>The stub state after the initial screenshot and the look-up in the cache.\<close>

definition stubEntered :: "(string \<rightharpoonup> CacheEntry) \<Rightarrow> unit RunnerState" where
  "stubEntered stored =
     emit (CacheGetEv ''login'') (emit (ExecuteEv screenshotInput) (stubState stored))"

text \<open>
  A page that changes while the trace is replayed. The world is whether the button at
  (10, 20) has been clicked: the component there reads "A" before the click and "B"
  after it. The trace was recorded on that page: move over "A", click, move over "B".
\<close>

definition driftRunner :: "bool Runner" where
  "driftRunner =
     \<lparr> cwd = ''/repo'',
       noCache = False,
       anthropicKey = Some ''sk-test'',
       hashData = name,
       execute = (\<lambda>inp clicked. (Inr stubPage, clicked \<or> input_action inp = ''left_click'')),
       getNormalizedComponentStringByCoords =
         (\<lambda>x y clicked. (Inr (if clicked then ''B'' else ''A''), clicked)),
       goto = (\<lambda>u w. (None, w)),
       processAction = (\<lambda>t page w. (Inr None, w)),
       JSON_parse = stubParse,
       importFile = (\<lambda>file reg w. (Inr reg, w)),
       launch = (\<lambda>w. (None, w)),
       close = (\<lambda>w. (None, w)) \<rparr>"

definition driftTest :: "bool TestFunction" where
  "driftTest = stubTest ''login'' None None"

definition driftTrace :: CacheEntry where
  "driftTrace = \<lparr> steps = Some [moveStep ''A'', clickStep ''A'', moveStep ''B''] \<rparr>"

definition driftState :: "bool RunnerState" where
  "driftState =
     \<lparr> world = False, cache = [''login'' \<mapsto> driftTrace], registry = emptyRegistry,
       events = [] \<rparr>"

section \<open>Properties of the adapter\<close>

text \<open>
  C6. The claim is that an unsupported-action error is raised exactly for tags outside the
  recognised set, and that a sleep action dispatches to the browser without raising it.
  In the code, a sleep action with any duration and any browser invokes the browser's sleep
  and then rejects with the error "Unsupported action: sleep", because the switch case
  falls through to the default branch.
\<close>

theorem transformAndExecute_sleep_unsupported:
  "transformAndExecute env browser
     \<lparr> action = ''sleep'', coordinate = None, text' = None, url = None, duration = d \<rparr>
   = (Inl (ErrorObj ''Unsupported action: sleep''), [Sleep d])"
  by (simp add: transformAndExecute_def handleSleep_def)

section \<open>Auxiliary facts about the runner\<close>

lemma cache_emit [simp]: "cache (emit ev s) = cache s"
  by (simp add: emit_def)

lemma world_emit [simp]: "world (emit ev s) = world s"
  by (simp add: emit_def)

lemma registry_emit [simp]: "registry (emit ev s) = registry s"
  by (simp add: emit_def)

lemma events_emit [simp]: "events (emit ev s) = events s @ [ev]"
  by (simp add: emit_def)

lemma calls_emit: "calls which (emit ev s) = calls which s + (if which ev then 1 else 0)"
  by (simp add: calls_def)

lemma calls_world [simp]: "calls which (s\<lparr> world := w \<rparr>) = calls which s"
  by (simp add: calls_def)

lemma calls_cache [simp]: "calls which (s\<lparr> cache := m \<rparr>) = calls which s"
  by (simp add: calls_def)

lemma calls_call:
  "call ev f s = (r, s') \<Longrightarrow> calls which s' = calls which s + (if which ev then 1 else 0)"
  by (auto simp: call_def calls_emit split: prod.splits)

lemma calls_callOptional:
  "callOptional ev hook s = (r, s') \<Longrightarrow>
   calls which s' = calls which s + (if hook \<noteq> None \<and> which ev then 1 else 0)"
  by (auto simp: callOptional_def calls_call split: option.splits)

text \<open>With \<^verbatim>\<open>noCache: true\<close> the function does not call itself.\<close>

lemma executeTest_noCache:
  "executeTest R t True s =
     (if directExecution t then
        (case callOptional (FnEv (name t)) (fn t) s of
           (None, s1) \<Rightarrow> (Inr (passedResult t ''Direct execution successful'' noTokens), s1)
         | (Some (ErrorObj m), s1) \<Rightarrow> (Inr (failedResult t m noTokens), s1)
         | (Some (NonError v), s1) \<Rightarrow>
             (Inr (failedResult t ''Direct execution failed'' noTokens), s1))
      else if anthropicKey R = None \<or> anthropicKey R = Some [] then
        (Inr (failedResult t ''ANTHROPIC_KEY is not set'' noTokens), s)
      else
        (case call (ExecuteEv screenshotInput) (execute R screenshotInput) s of
           (Inl error, s1) \<Rightarrow> (Inl error, s1)
         | (Inr initialState, s1) \<Rightarrow> executeTest_fresh R t initialState s1))"
  by (subst executeTest.simps) (simp split: prod.splits sum.splits)

lemma executeTest_entersFresh:
  "entersFresh R t c s initialState s1 \<Longrightarrow>
   executeTest R t c s = executeTest_fresh R t initialState s1"
  by (subst executeTest.simps)
    (auto simp: entersFresh_def cache_get_def
       split: prod.splits sum.splits option.splits if_splits)

lemma executeTest_entersReplay:
  "entersReplay R t c s initialState entry s1 \<Longrightarrow>
   executeTest R t c s =
     (case executeTest_cached R t s1 of
        (Inr result, s3) \<Rightarrow> (Inr result, s3)
      | (Inl caught, s3) \<Rightarrow>
          (case call (GotoEv (window_url initialState))
                  (goto R (window_url initialState)) (cache_delete R t s3) of
             (Some error, s4) \<Rightarrow> (Inl error, s4)
           | (None, s4) \<Rightarrow>
               (case executeTest R t True s4 of
                  (Inl error, s5) \<Rightarrow> (Inl error, s5)
                | (Inr ignored, s5) \<Rightarrow> executeTest_fresh R t initialState s5)))"
  by (subst executeTest.simps)
    (auto simp: entersReplay_def cache_get_def
       split: prod.splits sum.splits option.splits if_splits)

lemma entersFresh_calls:
  "entersFresh R t c s initialState s1 \<Longrightarrow>
     calls isCacheSet s1 = calls isCacheSet s \<and>
     calls isProcessAction s1 = calls isProcessAction s \<and>
     calls isAfterFn s1 = calls isAfterFn s"
  by (auto simp: entersFresh_def call_def cache_get_def calls_emit isCacheSet_def
        isProcessAction_def isAfterFn_def split: prod.splits sum.splits if_splits)

lemma entersReplay_state:
  "entersReplay R t c s initialState entry s1 \<Longrightarrow>
     cache s1 = cache s \<and> cache s (hashData R t) = Some entry \<and>
     calls isProcessAction s1 = calls isProcessAction s \<and>
     calls isCacheDelete s1 = calls isCacheDelete s"
  by (auto simp: entersReplay_def call_def cache_get_def calls_emit
        isProcessAction_def isCacheDelete_def split: prod.splits sum.splits)

lemma executeTest_fresh_cache_sets:
  "executeTest_fresh R t initialState s = (r, s') \<Longrightarrow>
   calls isCacheSet s' =
     calls isCacheSet s + (if \<exists>res. r = Inr res \<and> status res = ''passed'' then 1 else 0)"
  by (auto simp: executeTest_fresh_def cache_set_def calls_emit isCacheSet_def failedResult_def
        dest!: calls_call [where which = isCacheSet] calls_callOptional [where which = isCacheSet]
        split: prod.splits sum.splits option.splits if_splits)

lemma replayAction_keeps:
  "cache (replayAction R step s) = cache s \<and>
   calls isProcessAction (replayAction R step s) = calls isProcessAction s"
  by (auto simp: replayAction_def call_def calls_emit isProcessAction_def
        split: option.splits prod.splits)





text \<open>
  The runner's loop realises \<open>replayedWorld\<close>: when the trace replays without a mismatch
  from the world the runner is in, the loop over the trace's steps other than screenshots
  returns the passed result and ends in that world, without touching the cache or the AI
  client.
\<close>

lemma replaySteps_replayedWorld:
  assumes "replayedWorld R sts (world s) = Some final"
  shows "\<exists>s'. replaySteps R t (filter notScreenshot sts) s =
            (Inr (passedResult t ''All actions successfully replayed from cache'' noTokens), s') \<and>
          world s' = final \<and> cache s' = cache s \<and>
          calls isProcessAction s' = calls isProcessAction s"
  using assms
proof (induction sts arbitrary: s)
  case Nil
  then show ?case by simp
next
  case (Cons step rest)
  show ?case
  proof (cases "step_input step")
    case None
    with Cons.prems have "replayedWorld R rest (world s) = Some final" by simp
    moreover from None have "notScreenshot step" "verifyStep R step s = (Inr True, s)"
        "replayAction R step s = s"
      by (simp_all add: notScreenshot_def verifyStep_def replayAction_def)
    ultimately show ?thesis using Cons.IH [of s] by simp
  next
    case (Some inp)
    note inp = this
    show ?thesis
    proof (cases "input_action inp = ''screenshot''")
      case True
      with inp Cons.prems have "replayedWorld R rest (world s) = Some final" by simp
      moreover from inp True have "\<not> notScreenshot step"
        by (simp add: notScreenshot_def BrowserActionEnum_Screenshot_def)
      ultimately show ?thesis using Cons.IH [of s] by simp
    next
      case False
      let ?target = "if input_action inp = ''mouse_move'' then input_coordinate inp else None"
      from inp False have ns: "notScreenshot step"
        by (simp add: notScreenshot_def BrowserActionEnum_Screenshot_def)
      show ?thesis
      proof (cases ?target)
        case None
        let ?s1 = "emit (ExecuteEv inp) (s\<lparr> world := snd (execute R inp (world s)) \<rparr>)"
        from None inp False Cons.prems
        have "replayedWorld R rest (world ?s1) = Some final" by simp
        from Cons.IH [OF this] obtain s' where s':
            "replaySteps R t (filter notScreenshot rest) ?s1 =
               (Inr (passedResult t ''All actions successfully replayed from cache'' noTokens), s')"
            "world s' = final" "cache s' = cache ?s1"
            "calls isProcessAction s' = calls isProcessAction ?s1"
          by blast
        have v: "verifyStep R step s = (Inr True, s)"
          using None inp
          by (auto simp: verifyStep_def BrowserActionEnum_MouseMove_def split: if_splits)
        have a: "replayAction R step s = ?s1"
          using inp by (simp add: replayAction_def call_def split: prod.splits)
        have c: "calls isProcessAction ?s1 = calls isProcessAction s" "cache ?s1 = cache s"
          by (simp_all add: calls_emit isProcessAction_def)
        from s' v a ns c show ?thesis by simp
      next
        case (Some xy)
        obtain x y where xy: "xy = (x, y)" by (cases xy)
        from Some have mm: "input_action inp = ''mouse_move''" "input_coordinate inp = Some (x, y)"
          using xy by (auto split: if_splits)
        obtain q w1 where q: "getNormalizedComponentStringByCoords R x y (world s) = (q, w1)"
          by (cases "getNormalizedComponentStringByCoords R x y (world s)")
        from Cons.prems inp False mm q obtain live where live: "q = Inr live"
            "Some live = componentStr step"
          by (cases q) (auto split: if_splits)
        let ?s0 = "emit (ComponentStrEv x y) (s\<lparr> world := w1 \<rparr>)"
        let ?s1 = "emit (ExecuteEv inp) (?s0\<lparr> world := snd (execute R inp w1) \<rparr>)"
        from Cons.prems inp False mm q live
        have "replayedWorld R rest (world ?s1) = Some final" by simp
        from Cons.IH [OF this] obtain s' where s':
            "replaySteps R t (filter notScreenshot rest) ?s1 =
               (Inr (passedResult t ''All actions successfully replayed from cache'' noTokens), s')"
            "world s' = final" "cache s' = cache ?s1"
            "calls isProcessAction s' = calls isProcessAction ?s1"
          by blast
        have v: "verifyStep R step s = (Inr True, ?s0)"
          using inp mm q live
          by (simp add: verifyStep_def BrowserActionEnum_MouseMove_def call_def)
        have a: "replayAction R step ?s0 = ?s1"
          using inp by (simp add: replayAction_def call_def split: prod.splits)
        have c: "calls isProcessAction ?s1 = calls isProcessAction s" "cache ?s1 = cache s"
          by (simp_all add: calls_emit isProcessAction_def)
        from s' v a ns c show ?thesis by simp
      qed
    qed
  qed
qed

text \<open>The loop over a file's tests, cut at any test.\<close>

lemma runFileTests_append:
  "runFileTests R (pre @ ts) s =
     (case runFileTests R pre s of
        (Some error, s') \<Rightarrow> (Some error, s')
      | (None, s') \<Rightarrow> runFileTests R ts s')"
  by (induction pre arbitrary: s) (auto split: prod.splits option.splits sum.splits)

text \<open>Unfolding the model on concrete inputs.\<close>

lemmas stub_defs =
  stubRunner_def stubTest_def stubState_def stubTrace_def moveStep_def clickStep_def
  stubPage_def stubParse_def verdictText_def quoted_def throwing_def emptyRegistry_def
  passReply_def failReply_def loginTest_def stubEntered_def
  driftRunner_def driftTest_def driftTrace_def driftState_def smokeTest_def

lemmas run_defs =
  executeTest_fresh_def executeTest_cached_def runCachedTest_def verifyStep_def
  replayAction_def call_def callOptional_def cache_get_def cache_set_def cache_delete_def
  failedResult_def passedResult_def noTokens_def notScreenshot_def
  BrowserActionEnum_Screenshot_def BrowserActionEnum_MouseMove_def screenshotInput_def
  parseAIResult_def mentionsStatus_def statusKey_def matchBraces_def afterFailureReason_def

section \<open>Properties of the runner: replay\<close>

text \<open>
  C1. The claim is that a replayed step whose live component string differs from the
  recorded one aborts the replay, deletes the cache entry and starts a fresh AI run. On a
  cached trace whose mouse move was recorded over component "A" while the page now shows
  "B", the code stops the replay at that step and returns a failed result whose reason says
  "running test in normal mode"; the entry stays in the cache, nothing is deleted and the
  AI client is never called.
\<close>

theorem executeTest_mismatch_keeps_stale_trace:
  "fst (executeTest (stubRunner False (Inr ''B'') passReply []) loginTest False
          (stubState [''login'' \<mapsto> stubTrace])) =
     Inr (failedResult loginTest
            ''Component UI elements are different, running test in normal mode'' noTokens) \<and>
   cache (snd (executeTest (stubRunner False (Inr ''B'') passReply []) loginTest False
          (stubState [''login'' \<mapsto> stubTrace]))) ''login'' = Some stubTrace \<and>
   events (snd (executeTest (stubRunner False (Inr ''B'') passReply []) loginTest False
          (stubState [''login'' \<mapsto> stubTrace]))) =
     [ExecuteEv screenshotInput, CacheGetEv ''login'', CacheGetEv ''login'',
      ComponentStrEv 10 20]"
  by (simp add: executeTest.simps stub_defs run_defs)

text \<open>
  C2. The claim is that a failed replay is followed by exactly one fresh AI run. When the
  replay throws (here the query for the live component string does), the code deletes the
  entry, resets the page, awaits a complete run with caching disabled, drops its result,
  and then runs the test once more below the cache block: the AI client is called twice
  and the trace is stored twice.
\<close>

theorem executeTest_catch_runs_agent_twice:
  "fst (executeTest (stubRunner False (Inl (ErrorObj ''page closed'')) passReply []) loginTest
          False (stubState [''login'' \<mapsto> stubTrace])) =
     Inr \<lparr> test = None, status = ''passed'', reason = ''login succeeded'',
           tokenUsage = \<lparr> input = 120, output' = 30 \<rparr> \<rparr> \<and>
   events (snd (executeTest (stubRunner False (Inl (ErrorObj ''page closed'')) passReply [])
          loginTest False (stubState [''login'' \<mapsto> stubTrace]))) =
     [ExecuteEv screenshotInput, CacheGetEv ''login'', CacheGetEv ''login'',
      ComponentStrEv 10 20, CacheDeleteEv ''login'',
      GotoEv (Some ''http://localhost:3000/login''),
      ExecuteEv screenshotInput, ProcessActionEv ''login'', CacheSetEv ''login'',
      ProcessActionEv ''login'', CacheSetEv ''login''] \<and>
   calls isProcessAction (snd (executeTest
          (stubRunner False (Inl (ErrorObj ''page closed'')) passReply [])
          loginTest False (stubState [''login'' \<mapsto> stubTrace]))) = 2"
  by (simp add: executeTest.simps stub_defs run_defs calls_def isProcessAction_def)

text \<open>
  C7, as the code has it. On a cache hit whose trace has steps, if every verified step
  finds, on the page as the replay has left it at that step, the component string that
  was recorded, and the after-hook is absent or does not throw when it is called after
  the replay, then the result is passed with the reason "All actions successfully
  replayed from cache" and zero token usage, and the AI client is not called.
\<close>

theorem executeTest_replay_passes:
  assumes "entersReplay R t c s initialState entry s1"
    and "steps entry = Some sts"
    and "replayedWorld R sts (world s1) = Some final"
    and "case afterFn t of None \<Rightarrow> True | Some hook \<Rightarrow> fst (hook final) = None"
  shows "\<exists>s'. executeTest R t c s =
            (Inr (passedResult t ''All actions successfully replayed from cache'' noTokens), s') \<and>
          calls isProcessAction s' = calls isProcessAction s"
proof -
  let ?s2 = "emit (CacheGetEv (hashData R t)) s1"
  from assms(1) have st: "cache s1 (hashData R t) = Some entry"
      "calls isProcessAction s1 = calls isProcessAction s"
    using entersReplay_state [of R t c s initialState entry s1] by simp_all
  have s2: "cache_get R t s1 = (Some entry, ?s2)"
      "calls isProcessAction ?s2 = calls isProcessAction s"
    using st by (simp_all add: cache_get_def calls_emit isProcessAction_def)
  from assms(3) have "replayedWorld R sts (world ?s2) = Some final"
    by simp
  from replaySteps_replayedWorld [OF this, of t]
  obtain s3 where s3: "replaySteps R t (filter notScreenshot sts) ?s2 =
        (Inr (passedResult t ''All actions successfully replayed from cache'' noTokens), s3)"
      "world s3 = final"
      "calls isProcessAction s3 = calls isProcessAction ?s2"
    by blast
  have rc: "runCachedTest R t s1 =
      (Inr (passedResult t ''All actions successfully replayed from cache'' noTokens), s3)"
    using s2(1) s3(1) assms(2) by (simp add: runCachedTest_def)
  obtain s4 where s4:
      "callOptional (AfterFnEv (name t)) (afterFn t) s3 = (None, s4)"
      "calls isProcessAction s4 = calls isProcessAction s3"
  proof (cases "afterFn t")
    case None
    then have "callOptional (AfterFnEv (name t)) (afterFn t) s3 = (None, s3)"
      by (simp add: callOptional_def)
    then show ?thesis using that by simp
  next
    case (Some hook)
    with assms(4) s3(2) have "fst (hook (world s3)) = None" by simp
    then obtain w' where w': "hook (world s3) = (None, w')"
      by (metis fst_conv surj_pair)
    have "callOptional (AfterFnEv (name t)) (afterFn t) s3 =
        (None, emit (AfterFnEv (name t)) (s3\<lparr> world := w' \<rparr>))"
      using Some w' by (simp add: callOptional_def call_def)
    then show ?thesis using that by (simp add: calls_emit isProcessAction_def)
  qed
  have "executeTest_cached R t s1 =
      (Inr (passedResult t ''All actions successfully replayed from cache'' noTokens), s4)"
    using rc s4(1) by (simp add: executeTest_cached_def passedResult_def noTokens_def)
  with assms(1) s4(2) s3(3) s2(2) show ?thesis
    by (simp add: executeTest_entersReplay)
qed

text \<open>
  The theorem at work on a page that changes during the replay: the second mouse move
  finds "B" where the first found "A", as recorded.
\<close>

theorem executeTest_replay_passes_witness:
  "entersReplay driftRunner driftTest False driftState stubPage driftTrace
     (emit (CacheGetEv ''login'') (emit (ExecuteEv screenshotInput) driftState)) \<and>
   steps driftTrace = Some [moveStep ''A'', clickStep ''A'', moveStep ''B''] \<and>
   replayedWorld driftRunner [moveStep ''A'', clickStep ''A'', moveStep ''B''] False =
     Some True \<and>
   (\<exists>s'. executeTest driftRunner driftTest False driftState =
          (Inr (passedResult driftTest ''All actions successfully replayed from cache''
                  noTokens), s') \<and>
        calls isProcessAction s' = 0)"
proof -
  let ?s1 = "emit (CacheGetEv ''login'') (emit (ExecuteEv screenshotInput) driftState)"
  have h1: "entersReplay driftRunner driftTest False driftState stubPage driftTrace ?s1"
    by (simp add: entersReplay_def stub_defs run_defs emit_def)
  have h2: "steps driftTrace = Some [moveStep ''A'', clickStep ''A'', moveStep ''B'']"
    by (simp add: driftTrace_def)
  have w: "world ?s1 = False"
    by (simp add: stub_defs)
  have r: "replayedWorld driftRunner [moveStep ''A'', clickStep ''A'', moveStep ''B''] False =
      Some True"
    by (simp add: stub_defs)
  have h3: "replayedWorld driftRunner [moveStep ''A'', clickStep ''A'', moveStep ''B'']
      (world ?s1) = Some True"
    unfolding w by (rule r)
  have h4: "case afterFn driftTest of None \<Rightarrow> True
      | Some hook \<Rightarrow> fst (hook True) = None"
    by (simp add: stub_defs)
  have z: "calls isProcessAction driftState = 0"
    by (simp add: calls_def stub_defs)
  from executeTest_replay_passes [OF h1 h2 h3 h4] z
  have "\<exists>s'. executeTest driftRunner driftTest False driftState =
          (Inr (passedResult driftTest ''All actions successfully replayed from cache''
                  noTokens), s') \<and>
        calls isProcessAction s' = 0"
    by simp
  with h1 h2 r show ?thesis by blast
qed

text \<open>
  The claim of C7 itself fails on two counts: with an after-hook that throws, a replay
  without any mismatch ends in a failed result; and without a hook the reason is the text
  "All actions successfully replayed from cache", not "replayed from cache".
\<close>

theorem replay_pass_counterexample:
  "fst (executeTest (stubRunner False (Inr ''A'') passReply [])
          (stubTest ''login'' None (Some (throwing ''teardown failed''))) False
          (stubState [''login'' \<mapsto> stubTrace])) =
     Inr \<lparr> test = Some ''login'', status = ''failed'', reason = ''teardown failed'',
           tokenUsage = noTokens \<rparr> \<and>
   reason (projr (fst (executeTest (stubRunner False (Inr ''A'') passReply []) loginTest False
          (stubState [''login'' \<mapsto> stubTrace])))) \<noteq> ''replayed from cache''"
  by (simp add: executeTest.simps stub_defs run_defs)



text \<open>
  C10, as the code has it. On a cache hit whose entry has no steps, the result is failed
  with zero token usage, the cache is left as it was, nothing is deleted and the AI client
  is not called. The reason is "No steps to execute, running test in normal mode" when the
  after-hook is absent or completes, and that text wrapped as "AI: ..., After: ..." with
  the hook's error when the after-hook throws.
\<close>

theorem executeTest_replay_no_steps:
  assumes "entersReplay R t c s initialState entry s1"
    and "steps entry = None"
  shows "\<exists>s'. executeTest R t c s =
            (Inr (failedResult t
               (case afterFn t of
                  None \<Rightarrow> ''No steps to execute, running test in normal mode''
                | Some hook \<Rightarrow>
                    (case fst (hook (world s1)) of
                       None \<Rightarrow> ''No steps to execute, running test in normal mode''
                     | Some error \<Rightarrow>
                         ''AI: No steps to execute, running test in normal mode, After: '' @
                         errorText error))
               noTokens), s') \<and>
          cache s' = cache s \<and>
          calls isCacheDelete s' = calls isCacheDelete s \<and>
          calls isProcessAction s' = calls isProcessAction s"
proof -
  from assms(1) have st: "cache s1 (hashData R t) = Some entry" "cache s1 = cache s"
      "calls isProcessAction s1 = calls isProcessAction s"
      "calls isCacheDelete s1 = calls isCacheDelete s"
    using entersReplay_state [of R t c s initialState entry s1] by simp_all
  show ?thesis
    using st assms(2)
    by (auto simp: executeTest_entersReplay [OF assms(1)] executeTest_cached_def
          runCachedTest_def cache_get_def callOptional_def call_def calls_emit failedResult_def
          afterFailureReason_def isProcessAction_def isCacheDelete_def noTokens_def
          split: option.splits prod.splits)
qed

theorem executeTest_replay_no_steps_witness:
  "entersReplay (stubRunner False (Inr ''A'') passReply []) loginTest False
     (stubState [''login'' \<mapsto> \<lparr> steps = None \<rparr>]) stubPage \<lparr> steps = None \<rparr>
     (stubEntered [''login'' \<mapsto> \<lparr> steps = None \<rparr>]) \<and>
   (\<exists>s'. executeTest (stubRunner False (Inr ''A'') passReply []) loginTest False
            (stubState [''login'' \<mapsto> \<lparr> steps = None \<rparr>]) =
          (Inr (failedResult loginTest ''No steps to execute, running test in normal mode''
                  noTokens), s') \<and>
        cache s' ''login'' = Some \<lparr> steps = None \<rparr> \<and>
        calls isCacheDelete s' = 0 \<and> calls isProcessAction s' = 0)"
proof -
  let ?R = "stubRunner False (Inr ''A'') passReply []"
  let ?s = "stubState [''login'' \<mapsto> \<lparr> steps = None \<rparr>]"
  have h1: "entersReplay ?R loginTest False ?s stubPage \<lparr> steps = None \<rparr>
      (stubEntered [''login'' \<mapsto> \<lparr> steps = None \<rparr>])"
    by (simp add: entersReplay_def stub_defs run_defs emit_def)
  have h2: "steps \<lparr> steps = None \<rparr> = None"
    by simp
  have z: "calls isProcessAction ?s = 0" "calls isCacheDelete ?s = 0"
      "cache ?s ''login'' = Some \<lparr> steps = None \<rparr>" "afterFn loginTest = None"
    by (simp_all add: calls_def stub_defs)
  from executeTest_replay_no_steps [OF h1 h2] h1 z show ?thesis by auto
qed

text \<open>
  The claim of C10 itself fails when the after-hook throws: the reason is then not the
  "No steps" text but the composed one.
\<close>

theorem replay_no_steps_counterexample:
  "fst (executeTest (stubRunner False (Inr ''A'') passReply [])
          (stubTest ''login'' None (Some (throwing ''teardown failed''))) False
          (stubState [''login'' \<mapsto> \<lparr> steps = None \<rparr>])) =
     Inr \<lparr> test = Some ''login'', status = ''failed'',
           reason = ''AI: No steps to execute, running test in normal mode, After: teardown failed'',
           tokenUsage = noTokens \<rparr>"
  by (simp add: executeTest.simps stub_defs run_defs)

section \<open>Properties of the runner: fresh runs\<close>

text \<open>
  C8. In a fresh execution of a test (not a direct execution, and caching is off or the
  cache has no entry), \<^verbatim>\<open>cache.set\<close> is called once if the call returns a result whose
  status is "passed", and not at all otherwise, be it a failed result or a throw.
\<close>

theorem executeTest_cache_set_iff_passed:
  assumes "entersFresh R t c s initialState s1"
    and "executeTest R t c s = (r, s')"
  shows "calls isCacheSet s' =
     calls isCacheSet s + (if \<exists>res. r = Inr res \<and> status res = ''passed'' then 1 else 0)"
  using assms executeTest_fresh_cache_sets [of R t initialState s1 r s']
  by (simp add: executeTest_entersFresh entersFresh_calls)

theorem executeTest_cache_set_iff_passed_witness:
  "entersFresh (stubRunner False (Inr ''A'') passReply []) loginTest False
     (stubState Map.empty) stubPage (stubEntered Map.empty) \<and>
   fst (executeTest (stubRunner False (Inr ''A'') passReply []) loginTest False
          (stubState Map.empty)) =
     Inr \<lparr> test = None, status = ''passed'', reason = ''login succeeded'',
           tokenUsage = \<lparr> input = 120, output' = 30 \<rparr> \<rparr> \<and>
   calls isCacheSet (snd (executeTest (stubRunner False (Inr ''A'') passReply []) loginTest
          False (stubState Map.empty))) = 1 \<and>
   entersFresh (stubRunner False (Inr ''A'') failReply []) loginTest False
     (stubState Map.empty) stubPage (stubEntered Map.empty) \<and>
   fst (executeTest (stubRunner False (Inr ''A'') failReply []) loginTest False
          (stubState Map.empty)) =
     Inr \<lparr> test = None, status = ''failed'', reason = ''no login form'',
           tokenUsage = \<lparr> input = 120, output' = 30 \<rparr> \<rparr> \<and>
   calls isCacheSet (snd (executeTest (stubRunner False (Inr ''A'') failReply []) loginTest
          False (stubState Map.empty))) = 0"
proof -
  let ?P = "stubRunner False (Inr ''A'') passReply []"
  let ?F = "stubRunner False (Inr ''A'') failReply []"
  let ?s = "stubState Map.empty"
  have p1: "entersFresh ?P loginTest False ?s stubPage (stubEntered Map.empty)"
    by (simp add: entersFresh_def stub_defs run_defs emit_def)
  have p2: "executeTest ?P loginTest False ?s =
      (fst (executeTest ?P loginTest False ?s), snd (executeTest ?P loginTest False ?s))"
    by simp
  have p3: "fst (executeTest ?P loginTest False ?s) =
      Inr \<lparr> test = None, status = ''passed'', reason = ''login succeeded'',
            tokenUsage = \<lparr> input = 120, output' = 30 \<rparr> \<rparr>"
    by (simp add: executeTest.simps stub_defs run_defs)
  have f1: "entersFresh ?F loginTest False ?s stubPage (stubEntered Map.empty)"
    by (simp add: entersFresh_def stub_defs run_defs emit_def)
  have f2: "executeTest ?F loginTest False ?s =
      (fst (executeTest ?F loginTest False ?s), snd (executeTest ?F loginTest False ?s))"
    by simp
  have f3: "fst (executeTest ?F loginTest False ?s) =
      Inr \<lparr> test = None, status = ''failed'', reason = ''no login form'',
            tokenUsage = \<lparr> input = 120, output' = 30 \<rparr> \<rparr>"
    by (simp add: executeTest.simps stub_defs run_defs)
  have z: "calls isCacheSet ?s = 0"
    by (simp add: calls_def stub_defs)
  from executeTest_cache_set_iff_passed [OF p1 p2] executeTest_cache_set_iff_passed [OF f1 f2]
    p1 p3 f1 f3 z
  show ?thesis by simp
qed

text \<open>
  C4, as the code has it. When a fresh run's reply parses to a verdict and the after-hook
  then throws, the result is failed and keeps the run's token usage. Its reason is
  "AI: <the verdict's reason>, After: <the hook's error>" only when the verdict's status
  is "failed"; for any other status, a passing verdict among them, the reason is the
  hook's error text alone.
\<close>

theorem executeTest_afterFn_failure_reason:
  assumes "entersFresh R t c s initialState s1"
    and "callOptional (BeforeFnEv (name t)) (beforeFn t) s1 = (None, s2)"
    and "call (ProcessActionEv (name t)) (processAction R t initialState) s2 =
           (Inr (Some result), s3)"
    and "parseAIResult R (finalResponse result) = Inr aiResult"
    and "callOptional (AfterFnEv (name t)) (afterFn t) s3 = (Some error, s4)"
  shows "executeTest R t c s =
     (Inr (failedResult t
        (if status aiResult = ''failed''
         then ''AI: '' @ reason aiResult @ '', After: '' @ errorText error
         else errorText error)
        (usage result)), s4)"
  using assms by (simp add: executeTest_entersFresh executeTest_fresh_def afterFailureReason_def)

theorem executeTest_afterFn_failure_reason_witness:
  "entersFresh (stubRunner False (Inr ''A'') failReply [])
     (stubTest ''login'' None (Some (throwing ''teardown failed''))) False
     (stubState Map.empty) stubPage (stubEntered Map.empty) \<and>
   parseAIResult (stubRunner False (Inr ''A'') failReply []) [OtherBlock, TextBlock failReply] =
     Inr \<lparr> test = None, status = ''failed'', reason = ''no login form'',
           tokenUsage = noTokens \<rparr> \<and>
   executeTest (stubRunner False (Inr ''A'') failReply [])
       (stubTest ''login'' None (Some (throwing ''teardown failed''))) False
       (stubState Map.empty) =
     (Inr \<lparr> test = Some ''login'', status = ''failed'',
            reason = ''AI: no login form, After: teardown failed'',
            tokenUsage = \<lparr> input = 120, output' = 30 \<rparr> \<rparr>,
      emit (AfterFnEv ''login'') (emit (ProcessActionEv ''login'') (stubEntered Map.empty)))"
proof -
  let ?R = "stubRunner False (Inr ''A'') failReply []"
  let ?t = "stubTest ''login'' None (Some (throwing ''teardown failed''))"
  let ?s1 = "stubEntered Map.empty"
  let ?result = "\<lparr> finalResponse = [OtherBlock, TextBlock failReply],
           usage = \<lparr> input = 120, output' = 30 \<rparr>, pendingCache = stubTrace \<rparr>"
  let ?ai = "\<lparr> test = None, status = ''failed'', reason = ''no login form'',
           tokenUsage = noTokens \<rparr>"
  have h1: "entersFresh ?R ?t False (stubState Map.empty) stubPage ?s1"
    by (simp add: entersFresh_def stub_defs run_defs emit_def)
  have h2: "callOptional (BeforeFnEv (name ?t)) (beforeFn ?t) ?s1 = (None, ?s1)"
    by (simp add: stub_defs run_defs)
  have h3: "call (ProcessActionEv (name ?t)) (processAction ?R ?t stubPage) ?s1 =
      (Inr (Some ?result), emit (ProcessActionEv ''login'') ?s1)"
    by (simp add: stub_defs run_defs emit_def)
  have h4: "parseAIResult ?R (finalResponse ?result) = Inr ?ai"
    by (simp add: stub_defs run_defs)
  have h5: "callOptional (AfterFnEv (name ?t)) (afterFn ?t) (emit (ProcessActionEv ''login'') ?s1) =
      (Some (ErrorObj ''teardown failed''),
       emit (AfterFnEv ''login'') (emit (ProcessActionEv ''login'') ?s1))"
    by (simp add: stub_defs run_defs emit_def)
  from executeTest_afterFn_failure_reason [OF h1 h2 h3 h4 h5] h1 h4
  show ?thesis by (simp add: failedResult_def stubTest_def)
qed

text \<open>
  The claim of C4 itself fails: the AI verdict is passing, the after-hook throws, and the
  reason is the hook's error alone, without any "AI:" fragment.
\<close>

theorem afterFn_failure_after_pass_counterexample:
  "parseAIResult (stubRunner False (Inr ''A'') passReply []) [OtherBlock, TextBlock passReply] =
     Inr \<lparr> test = None, status = ''passed'', reason = ''login succeeded'',
           tokenUsage = noTokens \<rparr> \<and>
   fst (executeTest (stubRunner False (Inr ''A'') passReply [])
          (stubTest ''login'' None (Some (throwing ''teardown failed''))) False
          (stubState Map.empty)) =
     Inr \<lparr> test = Some ''login'', status = ''failed'', reason = ''teardown failed'',
           tokenUsage = \<lparr> input = 120, output' = 30 \<rparr> \<rparr> \<and>
   \<not> includes' ''teardown failed'' ''AI:''"
  by (simp add: executeTest.simps stub_defs run_defs)

text \<open>
  C5, as the code has it. When a test reaches its before-hook (not a direct execution, API
  key set, initial screenshot taken, caching off or no cache entry) and the hook throws,
  the result is failed with the hook's own error text as reason and zero token usage; the
  AI client is not called and the after-hook is not run.
\<close>

theorem executeTest_beforeFn_failure:
  assumes "entersFresh R t c s initialState s1"
    and "callOptional (BeforeFnEv (name t)) (beforeFn t) s1 = (Some error, s2)"
  shows "executeTest R t c s = (Inr (failedResult t (errorText error) noTokens), s2) \<and>
     calls isProcessAction s2 = calls isProcessAction s \<and>
     calls isAfterFn s2 = calls isAfterFn s"
  using assms calls_callOptional [of "BeforeFnEv (name t)" "beforeFn t" s1 "Some error" s2]
  by (simp add: executeTest_entersFresh executeTest_fresh_def entersFresh_calls
        isProcessAction_def isAfterFn_def)

theorem executeTest_beforeFn_failure_witness:
  "entersFresh (stubRunner False (Inr ''A'') passReply [])
     (stubTest ''login'' (Some (throwing ''setup failed'')) None) False
     (stubState Map.empty) stubPage (stubEntered Map.empty) \<and>
   executeTest (stubRunner False (Inr ''A'') passReply [])
       (stubTest ''login'' (Some (throwing ''setup failed'')) None) False
       (stubState Map.empty) =
     (Inr \<lparr> test = Some ''login'', status = ''failed'', reason = ''setup failed'',
            tokenUsage = noTokens \<rparr>,
      emit (BeforeFnEv ''login'') (stubEntered Map.empty)) \<and>
   calls isProcessAction (emit (BeforeFnEv ''login'') (stubEntered Map.empty)) = 0"
proof -
  let ?R = "stubRunner False (Inr ''A'') passReply []"
  let ?t = "stubTest ''login'' (Some (throwing ''setup failed'')) None"
  let ?s1 = "stubEntered Map.empty"
  have h1: "entersFresh ?R ?t False (stubState Map.empty) stubPage ?s1"
    by (simp add: entersFresh_def stub_defs run_defs emit_def)
  have h2: "callOptional (BeforeFnEv (name ?t)) (beforeFn ?t) ?s1 =
      (Some (ErrorObj ''setup failed''), emit (BeforeFnEv ''login'') ?s1)"
    by (simp add: stub_defs run_defs emit_def)
  have z: "calls isProcessAction (stubState Map.empty) = 0"
    by (simp add: calls_def stub_defs)
  from executeTest_beforeFn_failure [OF h1 h2] h1 z
  show ?thesis by (simp add: failedResult_def stubTest_def)
qed

text \<open>
  The claim of C5 itself fails in its last part: the test has an after-hook, the
  before-hook throws, and the after-hook is never called.
\<close>

theorem beforeFn_failure_skips_afterFn_counterexample:
  "afterFn (stubTest ''login'' (Some (throwing ''setup failed''))
              (Some (throwing ''teardown failed''))) \<noteq> None \<and>
   fst (executeTest (stubRunner False (Inr ''A'') passReply [])
          (stubTest ''login'' (Some (throwing ''setup failed''))
             (Some (throwing ''teardown failed''))) False
          (stubState Map.empty)) =
     Inr \<lparr> test = Some ''login'', status = ''failed'', reason = ''setup failed'',
           tokenUsage = noTokens \<rparr> \<and>
   events (snd (executeTest (stubRunner False (Inr ''A'') passReply [])
          (stubTest ''login'' (Some (throwing ''setup failed''))
             (Some (throwing ''teardown failed''))) False
          (stubState Map.empty))) =
     [ExecuteEv screenshotInput, CacheGetEv ''login'', BeforeFnEv ''login'']"
  by (simp add: executeTest.simps stub_defs run_defs)

text \<open>
  C3, as the code has it. When a fresh run's reply does not parse to a verdict,
  \<^verbatim>\<open>executeTest\<close> throws the parse error instead of returning a failed result, and since
  the loop over the file's tests catches nothing, the loop ends with that error in the
  state the throw left: no result is reported for the test and the remaining tests of the
  file are not started. The run as a whole is not aborted. When this happens to a test of
  a file that was imported, whose browser launched, whose before-all hooks completed and
  whose earlier tests went through the loop, and the browser then closes,
  \<^verbatim>\<open>executeTestFile\<close> returns normally: the
  \<^verbatim>\<open>finally\<close> block has closed the browser, emptied the hook lists and reported the file
  as passed, the \<^verbatim>\<open>catch\<close> has reported it as failed with the error's message (if the
  thrown value is an Error), and \<^verbatim>\<open>runTests\<close> goes on to execute the remaining files
  from that state.
\<close>

theorem runFileTests_unparsable_reply_stops_file:
  assumes "runHooks (beforeEachFns (registry s)) s = (None, sa)"
    and "entersFresh R t False (emit (OnTestStartEv (name t)) sa) initialState s1"
    and "callOptional (BeforeFnEv (name t)) (beforeFn t) s1 = (None, s2)"
    and "call (ProcessActionEv (name t)) (processAction R t initialState) s2 =
           (Inr (Some result), s3)"
    and "parseAIResult R (finalResponse result) = Inl error"
  shows "executeTest R t False (emit (OnTestStartEv (name t)) sa) = (Inl error, s3) \<and>
     runFileTests R (t # rest) s = (Some error, s3) \<and>
     (call (ImportEv path) (importFile R path ((registry s0)\<lparr> currentFileTests := [] \<rparr>))
          (s0\<lparr> registry := (registry s0)\<lparr> currentFileTests := [] \<rparr> \<rparr>) = (Inr loaded, sA) \<and>
      call LaunchEv (launch R) (sA\<lparr> registry := loaded \<rparr>) = (None, sB) \<and>
      runHooks (beforeAllFns (registry sB)) sB = (None, sC) \<and>
      currentFileTests (registry sC) = pre @ t # rest \<and>
      runFileTests R pre
        (emit (OnFileStartEv (filePathWithoutCwd R path) (length (pre @ t # rest))) sC) =
        (None, s) \<and>
      call CloseEv (close R) s3 = (None, sD) \<longrightarrow>
      (let closed = emit (OnFileEndEv \<lparr> filePath = path, file_status = ''passed'',
                                        file_reason = [] \<rparr>)
                      (sD\<lparr> registry := (registry sD)\<lparr> beforeAllFns := [], afterAllFns := [],
                                                         beforeEachFns := [],
                                                         afterEachFns := [] \<rparr> \<rparr>);
           ended = (case error of
                      ErrorObj m \<Rightarrow>
                        emit (OnFileEndEv \<lparr> filePath = path, file_status = ''failed'',
                                            file_reason = m \<rparr>) closed
                    | NonError v \<Rightarrow> closed)
       in executeTestFile R path s0 = ended \<and>
          runFiles R (path # files) s0 = runFiles R files ended))"
proof -
  from assms
  have x: "executeTest R t False (emit (OnTestStartEv (name t)) sa) = (Inl error, s3)"
    by (simp add: executeTest_entersFresh executeTest_fresh_def)
  with assms(1) have l: "runFileTests R (t # rest) s = (Some error, s3)"
    by simp
  have "executeTestFile R path s0 =
      (case error of
         ErrorObj m \<Rightarrow>
           emit (OnFileEndEv \<lparr> filePath = path, file_status = ''failed'', file_reason = m \<rparr>)
             (emit (OnFileEndEv \<lparr> filePath = path, file_status = ''passed'',
                                  file_reason = [] \<rparr>)
                (sD\<lparr> registry := (registry sD)\<lparr> beforeAllFns := [], afterAllFns := [],
                                                   beforeEachFns := [], afterEachFns := [] \<rparr> \<rparr>))
       | NonError v \<Rightarrow>
           emit (OnFileEndEv \<lparr> filePath = path, file_status = ''passed'', file_reason = [] \<rparr>)
             (sD\<lparr> registry := (registry sD)\<lparr> beforeAllFns := [], afterAllFns := [],
                                                beforeEachFns := [], afterEachFns := [] \<rparr> \<rparr>))"
    if f: "call (ImportEv path) (importFile R path ((registry s0)\<lparr> currentFileTests := [] \<rparr>))
          (s0\<lparr> registry := (registry s0)\<lparr> currentFileTests := [] \<rparr> \<rparr>) = (Inr loaded, sA)"
      "call LaunchEv (launch R) (sA\<lparr> registry := loaded \<rparr>) = (None, sB)"
      "runHooks (beforeAllFns (registry sB)) sB = (None, sC)"
      "currentFileTests (registry sC) = pre @ t # rest"
      "runFileTests R pre
        (emit (OnFileStartEv (filePathWithoutCwd R path) (length (pre @ t # rest))) sC) =
        (None, s)"
      "call CloseEv (close R) s3 = (None, sD)"
  proof -
    from f(5) l
    have "runFileTests R (pre @ t # rest)
        (emit (OnFileStartEv (filePathWithoutCwd R path) (length (pre @ t # rest))) sC) =
        (Some error, s3)"
      by (simp add: runFileTests_append)
    with f(3,4) have b: "fileBody R path sB = (Some error, s3)"
      by (simp add: fileBody_def)
    from f(1,2) b f(6) show ?thesis
      by (simp add: executeTestFile_def fileTry_def fileFinally_def split: thrown.splits)
  qed
  with x l show ?thesis
    by (simp add: Let_def)
qed

theorem runFileTests_unparsable_reply_stops_file_witness:
  "parseAIResult
       (stubRunner False (Inr ''A'') ''I could not decide''
          [smokeTest, loginTest, stubTest ''logout'' None None])
       [OtherBlock, TextBlock ''I could not decide''] =
     Inl (ErrorObj ''No test result found in AI response'') \<and>
   events (executeTestFile
       (stubRunner False (Inr ''A'') ''I could not decide''
          [smokeTest, loginTest, stubTest ''logout'' None None])
       ''/repo/a.test.ts'' (stubState Map.empty)) =
     [ImportEv ''/repo/a.test.ts'', LaunchEv, OnFileStartEv ''a.test.ts'' 3,
      OnTestStartEv ''smoke'',
      OnTestEndEv (passedResult smokeTest ''Direct execution successful'' noTokens),
      OnTestStartEv ''login'', ExecuteEv screenshotInput, CacheGetEv ''login'',
      ProcessActionEv ''login'', CloseEv,
      OnFileEndEv \<lparr> filePath = ''/repo/a.test.ts'', file_status = ''passed'',
                    file_reason = [] \<rparr>,
      OnFileEndEv \<lparr> filePath = ''/repo/a.test.ts'', file_status = ''failed'',
                    file_reason = ''No test result found in AI response'' \<rparr>] \<and>
   events (runFiles
       (stubRunner False (Inr ''A'') ''I could not decide''
          [smokeTest, loginTest, stubTest ''logout'' None None])
       [''/repo/a.test.ts'', ''/repo/b.test.ts''] (stubState Map.empty)) =
     [ImportEv ''/repo/a.test.ts'', LaunchEv, OnFileStartEv ''a.test.ts'' 3,
      OnTestStartEv ''smoke'',
      OnTestEndEv (passedResult smokeTest ''Direct execution successful'' noTokens),
      OnTestStartEv ''login'', ExecuteEv screenshotInput, CacheGetEv ''login'',
      ProcessActionEv ''login'', CloseEv,
      OnFileEndEv \<lparr> filePath = ''/repo/a.test.ts'', file_status = ''passed'',
                    file_reason = [] \<rparr>,
      OnFileEndEv \<lparr> filePath = ''/repo/a.test.ts'', file_status = ''failed'',
                    file_reason = ''No test result found in AI response'' \<rparr>,
      ImportEv ''/repo/b.test.ts'', LaunchEv, OnFileStartEv ''b.test.ts'' 3,
      OnTestStartEv ''smoke'',
      OnTestEndEv (passedResult smokeTest ''Direct execution successful'' noTokens),
      OnTestStartEv ''login'', ExecuteEv screenshotInput, CacheGetEv ''login'',
      ProcessActionEv ''login'', CloseEv,
      OnFileEndEv \<lparr> filePath = ''/repo/b.test.ts'', file_status = ''passed'',
                    file_reason = [] \<rparr>,
      OnFileEndEv \<lparr> filePath = ''/repo/b.test.ts'', file_status = ''failed'',
                    file_reason = ''No test result found in AI response'' \<rparr>]"
proof -
  let ?ts = "[smokeTest, loginTest, stubTest ''logout'' None None]"
  let ?R = "stubRunner False (Inr ''A'') ''I could not decide'' ?ts"
  let ?init = "stubState Map.empty"
  let ?loaded = "emptyRegistry\<lparr> currentFileTests := ?ts \<rparr>"
  let ?imported = "emit (ImportEv ''/repo/a.test.ts'') ?init"
  let ?launched = "emit LaunchEv (?imported\<lparr> registry := ?loaded \<rparr>)"
  let ?started = "emit (OnFileStartEv ''a.test.ts'' 3) ?launched"
  let ?arrived = "emit (OnTestEndEv (passedResult smokeTest ''Direct execution successful''
          noTokens)) (emit (OnTestStartEv ''smoke'') ?started)"
  let ?entered = "emit (CacheGetEv ''login'')
          (emit (ExecuteEv screenshotInput) (emit (OnTestStartEv ''login'') ?arrived))"
  let ?thrown = "emit (ProcessActionEv ''login'') ?entered"
  let ?closed = "emit CloseEv ?thrown"
  let ?result = "\<lparr> finalResponse = [OtherBlock, TextBlock ''I could not decide''],
           usage = \<lparr> input = 120, output' = 30 \<rparr>, pendingCache = stubTrace \<rparr>"
  let ?error = "ErrorObj ''No test result found in AI response''"
  have h1: "runHooks (beforeEachFns (registry ?arrived)) ?arrived = (None, ?arrived)"
    by (simp add: stub_defs)
  have h2: "entersFresh ?R loginTest False (emit (OnTestStartEv (name loginTest)) ?arrived)
      stubPage ?entered"
    by (simp add: entersFresh_def stub_defs run_defs emit_def)
  have h3: "callOptional (BeforeFnEv (name loginTest)) (beforeFn loginTest) ?entered =
      (None, ?entered)"
    by (simp add: stub_defs run_defs)
  have h4: "call (ProcessActionEv (name loginTest)) (processAction ?R loginTest stubPage)
      ?entered = (Inr (Some ?result), ?thrown)"
    by (simp add: stub_defs run_defs emit_def)
  have h5: "parseAIResult ?R (finalResponse ?result) = Inl ?error"
    by (simp add: stub_defs run_defs)
  have f1: "call (ImportEv ''/repo/a.test.ts'')
        (importFile ?R ''/repo/a.test.ts'' ((registry ?init)\<lparr> currentFileTests := [] \<rparr>))
        (?init\<lparr> registry := (registry ?init)\<lparr> currentFileTests := [] \<rparr> \<rparr>) =
      (Inr ?loaded, ?imported)"
    by (simp add: stub_defs run_defs emit_def)
  have f2: "call LaunchEv (launch ?R) (?imported\<lparr> registry := ?loaded \<rparr>) = (None, ?launched)"
    by (simp add: stub_defs run_defs emit_def)
  have f3: "runHooks (beforeAllFns (registry ?launched)) ?launched = (None, ?launched)"
    by (simp add: stub_defs)
  have f4: "currentFileTests (registry ?launched) =
      [smokeTest] @ loginTest # [stubTest ''logout'' None None]"
    by (simp add: stub_defs)
  have f5: "runFileTests ?R [smokeTest]
        (emit (OnFileStartEv (filePathWithoutCwd ?R ''/repo/a.test.ts'')
           (length ([smokeTest] @ loginTest # [stubTest ''logout'' None None]))) ?launched) =
      (None, ?arrived)"
    by (simp add: executeTest.simps filePathWithoutCwd_def stub_defs run_defs emit_def)
  have f6: "call CloseEv (close ?R) ?thrown = (None, ?closed)"
    by (simp add: stub_defs run_defs emit_def)
  note inst = runFileTests_unparsable_reply_stops_file [OF h1 h2 h3 h4 h5,
      of "[stubTest ''logout'' None None]" "''/repo/a.test.ts''" ?init ?loaded ?imported
         ?launched ?launched "[smokeTest]" ?closed "[''/repo/b.test.ts'']"]
  from inst f1 f2 f3 f4 f5 f6
  have e: "executeTestFile ?R ''/repo/a.test.ts'' ?init =
      emit (OnFileEndEv \<lparr> filePath = ''/repo/a.test.ts'', file_status = ''failed'',
                          file_reason = ''No test result found in AI response'' \<rparr>)
        (emit (OnFileEndEv \<lparr> filePath = ''/repo/a.test.ts'', file_status = ''passed'',
                             file_reason = [] \<rparr>)
           (?closed\<lparr> registry := (registry ?closed)\<lparr> beforeAllFns := [], afterAllFns := [],
                                              beforeEachFns := [], afterEachFns := [] \<rparr> \<rparr>))"
    and r: "runFiles ?R [''/repo/a.test.ts'', ''/repo/b.test.ts''] ?init =
      runFiles ?R [''/repo/b.test.ts'']
        (emit (OnFileEndEv \<lparr> filePath = ''/repo/a.test.ts'', file_status = ''failed'',
                          file_reason = ''No test result found in AI response'' \<rparr>)
        (emit (OnFileEndEv \<lparr> filePath = ''/repo/a.test.ts'', file_status = ''passed'',
                             file_reason = [] \<rparr>)
           (?closed\<lparr> registry := (registry ?closed)\<lparr> beforeAllFns := [], afterAllFns := [],
                                              beforeEachFns := [], afterEachFns := [] \<rparr> \<rparr>)))"
    by (simp_all add: Let_def)
  have ee: "events (executeTestFile ?R ''/repo/a.test.ts'' ?init) =
     [ImportEv ''/repo/a.test.ts'', LaunchEv, OnFileStartEv ''a.test.ts'' 3,
      OnTestStartEv ''smoke'',
      OnTestEndEv (passedResult smokeTest ''Direct execution successful'' noTokens),
      OnTestStartEv ''login'', ExecuteEv screenshotInput, CacheGetEv ''login'',
      ProcessActionEv ''login'', CloseEv,
      OnFileEndEv \<lparr> filePath = ''/repo/a.test.ts'', file_status = ''passed'',
                    file_reason = [] \<rparr>,
      OnFileEndEv \<lparr> filePath = ''/repo/a.test.ts'', file_status = ''failed'',
                    file_reason = ''No test result found in AI response'' \<rparr>]"
    unfolding e by (simp add: stubState_def)
  have re: "events (runFiles ?R [''/repo/a.test.ts'', ''/repo/b.test.ts''] ?init) =
     [ImportEv ''/repo/a.test.ts'', LaunchEv, OnFileStartEv ''a.test.ts'' 3,
      OnTestStartEv ''smoke'',
      OnTestEndEv (passedResult smokeTest ''Direct execution successful'' noTokens),
      OnTestStartEv ''login'', ExecuteEv screenshotInput, CacheGetEv ''login'',
      ProcessActionEv ''login'', CloseEv,
      OnFileEndEv \<lparr> filePath = ''/repo/a.test.ts'', file_status = ''passed'',
                    file_reason = [] \<rparr>,
      OnFileEndEv \<lparr> filePath = ''/repo/a.test.ts'', file_status = ''failed'',
                    file_reason = ''No test result found in AI response'' \<rparr>,
      ImportEv ''/repo/b.test.ts'', LaunchEv, OnFileStartEv ''b.test.ts'' 3,
      OnTestStartEv ''smoke'',
      OnTestEndEv (passedResult smokeTest ''Direct execution successful'' noTokens),
      OnTestStartEv ''login'', ExecuteEv screenshotInput, CacheGetEv ''login'',
      ProcessActionEv ''login'', CloseEv,
      OnFileEndEv \<lparr> filePath = ''/repo/b.test.ts'', file_status = ''passed'',
                    file_reason = [] \<rparr>,
      OnFileEndEv \<lparr> filePath = ''/repo/b.test.ts'', file_status = ''failed'',
                    file_reason = ''No test result found in AI response'' \<rparr>]"
    unfolding r
    by (simp add: executeTest.simps executeTestFile_def fileTry_def fileBody_def
          fileFinally_def filePathWithoutCwd_def stub_defs run_defs)
  from h5 ee re show ?thesis by simp
qed

text \<open>
  The claim of C3 itself fails: the reply has no verdict, \<^verbatim>\<open>executeTest\<close> throws rather
  than return a failed result, and in a file with the tests "login" and "logout" the second
  test is never started; the file is reported as passed by the \<^verbatim>\<open>finally\<close> block and
  then as failed by the \<^verbatim>\<open>catch\<close>.
\<close>

theorem unparsable_reply_fails_file_counterexample:
  "fst (executeTest (stubRunner False (Inr ''A'') ''I could not decide'' []) loginTest False
          (stubState Map.empty)) =
     Inl (ErrorObj ''No test result found in AI response'') \<and>
   events (executeTestFile
          (stubRunner False (Inr ''A'') ''I could not decide''
             [loginTest, stubTest ''logout'' None None])
          ''/repo/a.test.ts'' (stubState Map.empty)) =
     [ImportEv ''/repo/a.test.ts'', LaunchEv, OnFileStartEv ''a.test.ts'' 2,
      OnTestStartEv ''login'', ExecuteEv screenshotInput, CacheGetEv ''login'',
      ProcessActionEv ''login'', CloseEv,
      OnFileEndEv \<lparr> filePath = ''/repo/a.test.ts'', file_status = ''passed'',
                    file_reason = [] \<rparr>,
      OnFileEndEv \<lparr> filePath = ''/repo/a.test.ts'', file_status = ''failed'',
                    file_reason = ''No test result found in AI response'' \<rparr>]"
  by (simp add: executeTest.simps executeTestFile_def fileTry_def fileBody_def fileFinally_def
        filePathWithoutCwd_def stub_defs run_defs)

end
